theory Spec2Isabelle
  imports Main
begin

section \<open>Strings of the script\<close>

text \<open>
  A JavaScript string is a sequence of UTF-16 code units. The script's literals contain
  Vietnamese text, so a string is modelled as the list of its code units; \<open>ascii\<close> embeds the
  ASCII part of a literal and the other code units are written as numbers.
\<close>

type_synonym jsstring = "nat list"

definition ascii :: "string \<Rightarrow> jsstring" where
  "ascii cs = map of_char cs"

text \<open>
  \<open>String.prototype.trim\<close> removes the WhiteSpace and LineTerminator code points of
  ECMAScript from both ends: TAB, LF, VT, FF, CR, SP, NBSP, U+1680, U+2000 to U+200A,
  U+2028, U+2029, U+202F, U+205F, U+3000 and U+FEFF.
\<close>

definition is_whitespace :: "nat \<Rightarrow> bool" where
  "is_whitespace c =
     (c \<in> {9, 10, 11, 12, 13, 32, 160, 5760, 8232, 8233, 8239, 8287, 12288, 65279}
      \<or> (8192 \<le> c \<and> c \<le> 8202))"

definition trim :: "jsstring \<Rightarrow> jsstring" where
  "trim s = rev (dropWhile is_whitespace (rev (dropWhile is_whitespace s)))"

section \<open>Numbers\<close>

text \<open>
  A number of the script is an IEEE 754 double. The amounts of a reply are whole numbers,
  so the model has the doubles whose value is an integer, the negative zero, the two
  infinities and NaN. \<open>Fin n\<close> stands for the double nearest to the integer \<open>n\<close>, which
  is the value \<open>JSON.parse\<close> gives to the literal \<open>n\<close>; \<open>to_double\<close> computes it: round to
  nearest with 53 significant bits, ties to the even significand, infinite when the
  rounded magnitude reaches \<open>2^1024\<close>.
\<close>

datatype jsnum = Fin int | NegZero | PosInf | NegInf | NaN

fun bit_length :: "nat \<Rightarrow> nat" where
  "bit_length n = (if n = 0 then 0 else Suc (bit_length (n div 2)))"

declare bit_length.simps [simp del]

definition round_to_53_bits :: "nat \<Rightarrow> nat" where
  "round_to_53_bits m =
     (if m \<le> 2 ^ 53 then m
      else
        let e = bit_length m - 53; q = m div 2 ^ e; r = m mod 2 ^ e; half = 2 ^ (e - 1)
        in (if r > half \<or> (r = half \<and> odd q) then q + 1 else q) * 2 ^ e)"

definition to_double :: "int \<Rightarrow> jsnum" where
  "to_double n =
     (let m = round_to_53_bits (nat \<bar>n\<bar>) in
      if m \<ge> 2 ^ 1024 then (if n < 0 then NegInf else PosInf)
      else Fin (if n < 0 then - int m else int m))"

fun norm :: "jsnum \<Rightarrow> jsnum" where
  "norm (Fin n) = to_double n"
| "norm x = x"

fun is_zero :: "jsnum \<Rightarrow> bool" where
  "is_zero (Fin n) = (n = 0)"
| "is_zero NegZero = True"
| "is_zero x = False"

fun is_infinite :: "jsnum \<Rightarrow> bool" where
  "is_infinite PosInf = True"
| "is_infinite NegInf = True"
| "is_infinite x = False"

fun sign_bit :: "jsnum \<Rightarrow> bool" where
  "sign_bit (Fin n) = (n < 0)"
| "sign_bit NegZero = True"
| "sign_bit NegInf = True"
| "sign_bit x = False"

fun int_of :: "jsnum \<Rightarrow> int" where
  "int_of (Fin n) = n"
| "int_of x = 0"

text \<open>
  \<open>a * b\<close> and \<open>a + b\<close> on these doubles: the exact result, rounded. A zero product takes
  the sign of its factors (\<open>-5 * 0\<close> is \<open>-0\<close>), infinity times zero and the sum of opposite
  infinities are NaN, and a sum that is exactly zero is \<open>+0\<close> unless both terms are \<open>-0\<close>.
\<close>

definition js_mul :: "jsnum \<Rightarrow> jsnum \<Rightarrow> jsnum" where
  "js_mul x y =
     (let a = norm x; b = norm y in
      if a = NaN \<or> b = NaN then NaN
      else if is_infinite a \<or> is_infinite b then
        (if is_zero a \<or> is_zero b then NaN
         else if sign_bit a \<noteq> sign_bit b then NegInf else PosInf)
      else if is_zero a \<or> is_zero b then
        (if sign_bit a \<noteq> sign_bit b then NegZero else Fin 0)
      else to_double (int_of a * int_of b))"

definition js_add :: "jsnum \<Rightarrow> jsnum \<Rightarrow> jsnum" where
  "js_add x y =
     (let a = norm x; b = norm y in
      if a = NaN \<or> b = NaN then NaN
      else if is_infinite a then (if is_infinite b \<and> b \<noteq> a then NaN else a)
      else if is_infinite b then b
      else if is_zero a \<and> is_zero b then
        (if a = NegZero \<and> b = NegZero then NegZero else Fin 0)
      else if int_of a + int_of b = 0 then Fin 0
      else to_double (int_of a + int_of b))"

text \<open>Truthiness of a number: \<open>0\<close>, \<open>-0\<close> and NaN are falsy.\<close>

definition truthy_number :: "jsnum \<Rightarrow> bool" where
  "truthy_number x = (\<not> is_zero (norm x) \<and> norm x \<noteq> NaN)"

section \<open>Number formatting\<close>

text \<open>
  \<open>format_integer\<close> writes an integer the way the locale \<open>vi-VN\<close> does: the decimal digits
  in groups of three separated by \<open>.\<close>, with a leading \<open>-\<close> for a negative number.
\<close>

fun digits :: "nat \<Rightarrow> nat list" where
  "digits n = (if n < 10 then [48 + n] else digits (n div 10) @ [48 + n mod 10])"

declare digits.simps [simp del]

fun group3 :: "nat list \<Rightarrow> nat list" where
  "group3 (a # b # c # d # rest) = a # b # c # 46 # group3 (d # rest)"
| "group3 ds = ds"

definition format_integer :: "int \<Rightarrow> jsstring" where
  "format_integer n =
     (if n < 0 then [45] else []) @ rev (group3 (rev (digits (nat \<bar>n\<bar>))))"

text \<open>
  \<open>formatPrice\<close> is \<open>new Intl.NumberFormat('vi-VN').format(price)\<close>. A double below \<open>2^53\<close>
  in magnitude is written as the integer it is. From \<open>2^53\<close> on, the digits written are
  those of the shortest decimal that reads back as the same double (the one nearest to
  the double when there are several, the even one on a tie), filled up with zeros:
  \<open>2^64\<close> is written \<open>18.446.744.073.709.552.000\<close>. \<open>shorten\<close> finds that decimal by
  rounding the integer to ever fewer digits for as long as it still reads back.
\<close>

fun shorten :: "nat \<Rightarrow> nat \<Rightarrow> nat \<Rightarrow> nat \<Rightarrow> nat" where
  "shorten 0 m scale best = best"
| "shorten (Suc fuel) m scale best =
     (let lo = (m div scale) * scale;
          hi = lo + scale;
          lo_ok = (to_double (int lo) = Fin (int m));
          hi_ok = (to_double (int hi) = Fin (int m))
      in if lo_ok \<and> hi_ok then
           shorten fuel m (scale * 10)
             (if m - lo < hi - m then lo
              else if hi - m < m - lo then hi
              else if even (lo div scale) then lo else hi)
         else if lo_ok then shorten fuel m (scale * 10) lo
         else if hi_ok then shorten fuel m (scale * 10) hi
         else best)"

definition shortest_decimal :: "nat \<Rightarrow> nat" where
  "shortest_decimal m = (if m < 2 ^ 53 then m else shorten (length (digits m)) m 10 m)"

definition formatPrice :: "jsnum \<Rightarrow> jsstring" where
  "formatPrice price =
     (case norm price of
        Fin n \<Rightarrow>
          (if n < 0 then [45] else []) @ rev (group3 (rev (digits (shortest_decimal (nat \<bar>n\<bar>)))))
      | NegZero \<Rightarrow> [45, 48]
      | PosInf \<Rightarrow> [8734]
      | NegInf \<Rightarrow> [45, 8734]
      | NaN \<Rightarrow> [78, 97, 78])"

section \<open>Data carried by a response\<close>

text \<open>
  The body of a reply is \<open>{message, type, data?}\<close>. \<open>data\<close> is one JavaScript object that
  both renderers read, so it is one record holding the fields either of them looks at; a
  field that may be missing is an option, where \<open>None\<close> stands for a missing field and for
  \<open>null\<close> alike when the script only tests the field's truthiness. The script tests
  \<open>currency\<close> with \<open>typeof\<close>, which tells a missing field from \<open>null\<close>, so that field has
  three forms.
\<close>

datatype currency_field = NoCurrency | NullCurrency | Currency jsstring

record price_value =
  pvalue :: jsnum
  pcurrency :: jsstring

record product =
  sku :: jsstring
  name :: jsstring
  small_image_url :: "jsstring option"
  regular_price :: "price_value option"

record search_result =
  error :: "jsstring option"
  total_count :: "int option"
  products :: "product list option"

record order_item =
  item_name :: jsstring
  quantity :: jsnum
  price :: jsnum

record payload =
  results :: "(jsstring \<times> search_result) list option"
  order_id :: jsstring
  status :: jsstring
  order_date :: "jsstring option"
  currency :: currency_field
  items :: "order_item list option"
  total :: "jsnum option"

record response =
  message :: jsstring
  rtype :: jsstring
  data :: "payload option"

section \<open>What the renderers write\<close>

text \<open>
  A container's \<open>innerHTML\<close> is built by appending template literals. Each template literal
  of the script is one token that keeps the values interpolated into it, in the order the
  script appends them.
\<close>

datatype js_value = VString jsstring | VBuiltin jsstring | VUndefined

record product_card =
  img_src :: jsstring
  card_name :: jsstring
  card_sku :: jsstring
  card_price :: jsstring

datatype product_token =
    Heading
  | ErrorMessage jsstring jsstring
  | NoResults jsstring
  | SectionOpen jsstring "int option"
  | Card product_card
  | SectionClose

record order_line =
  line_name :: jsstring
  line_quantity :: jsnum
  line_total :: jsstring
  line_currency :: jsstring

record order_info =
  info_order_id :: jsstring
  info_status_class :: jsstring
  info_status_label :: js_value
  info_order_date :: jsstring
  info_items :: "order_line list"
  info_total :: jsstring
  info_currency :: jsstring

section \<open>State of the widget\<close>

datatype chat_message = UserMessage jsstring | BotMessage jsstring bool

datatype history_entry =
    UserEntry jsstring
  | BotEntry jsstring jsstring "payload option"

record request =
  req_message :: jsstring
  session_id :: jsstring
  user_id :: "jsstring option"

datatype js_error = NetworkError | HttpError nat | SyntaxError | TypeError

text \<open>
  The side effects of the handlers, in the order they happen, are kept in the field
  \<open>effects\<close> of the state: every function that changes the page or the history, calls
  \<open>fetch\<close> or writes to the console adds its effect at the end.
\<close>

datatype effect =
    InputCleared
  | ChatAppended chat_message
  | HistoryPushed history_entry
  | TypingSet bool
  | FetchCalled request
  | ContainersHidden
  | ProductRendererCalled
  | OrderRendererCalled
  | ConsoleLogged

record widget =
  chatInput :: jsstring
  sendButton_disabled :: bool
  chatWindow :: "chat_message list"
  productContainer_active :: bool
  productContainer_html :: "product_token list"
  orderContainer_active :: bool
  orderContainer_html :: "order_info option"
  typingIndicator_active :: bool
  status_online :: bool
  status_text :: jsstring
  sessionId :: jsstring
  userId :: "jsstring option"
  isTyping :: bool
  conversationHistory :: "history_entry list"
  effects :: "effect list"


section \<open>Helper functions\<close>

definition log_effect :: "effect \<Rightarrow> widget \<Rightarrow> widget" where
  "log_effect e s = s\<lparr>effects := effects s @ [e]\<rparr>"

text \<open>\<open>a || b\<close> on an optional string and on an optional number.\<close>

fun if_truthy :: "jsstring option \<Rightarrow> jsstring option" where
  "if_truthy None = None"
| "if_truthy (Some s) = (if s = [] then None else Some s)"

definition or_string :: "jsstring option \<Rightarrow> jsstring \<Rightarrow> jsstring" where
  "or_string a b = (case if_truthy a of Some s \<Rightarrow> s | None \<Rightarrow> b)"

definition or_number :: "jsnum option \<Rightarrow> jsnum \<Rightarrow> jsnum" where
  "or_number a b = (case a of Some n \<Rightarrow> (if truthy_number n then n else b) | None \<Rightarrow> b)"

text \<open>
  \<open>statusMap\<close> is an object literal, so \<open>statusMap[status]\<close> finds the literal's own
  properties and, after them, the properties every object inherits from
  \<open>Object.prototype\<close>, whose values are built-in functions and objects.
\<close>

definition statusMap :: "(jsstring \<times> jsstring) list" where
  "statusMap =
     [(ascii ''processing'', [272] @ ascii ''ang x'' @ [7917] @ ascii '' l'' @ [253]),
      (ascii ''pending'', ascii ''Ch'' @ [7901] @ ascii '' x'' @ [225] @ ascii ''c nh'' @ [7853] @ ascii ''n''),
      (ascii ''pending_payment'', ascii ''Ch'' @ [7901] @ ascii '' thanh to'' @ [225] @ ascii ''n''),
      (ascii ''on_hold'', ascii ''T'' @ [7841] @ ascii ''m gi'' @ [7919]),
      (ascii ''completed'', ascii ''Ho'' @ [224] @ ascii ''n th'' @ [224] @ ascii ''nh''),
      (ascii ''canceled'', [272, 227] @ ascii '' h'' @ [7911] @ ascii ''y''),
      (ascii ''refunded'', [272, 227] @ ascii '' ho'' @ [224] @ ascii ''n ti'' @ [7873] @ ascii ''n''),
      (ascii ''failed'', ascii ''Th'' @ [7845] @ ascii ''t b'' @ [7841] @ ascii ''i''),
      (ascii ''shipped'', [272] @ ascii ''ang giao h'' @ [224] @ ascii ''ng'')]"

definition Object_prototype :: "jsstring list" where
  "Object_prototype =
     map ascii [''constructor'', ''hasOwnProperty'', ''isPrototypeOf'',
       ''propertyIsEnumerable'', ''toLocaleString'', ''toString'', ''valueOf'', ''__proto__'',
       ''__defineGetter__'', ''__defineSetter__'', ''__lookupGetter__'', ''__lookupSetter__'']"

definition get_property :: "(jsstring \<times> jsstring) list \<Rightarrow> jsstring \<Rightarrow> js_value" where
  "get_property obj key =
     (case map_of obj key of
        Some v \<Rightarrow> VString v
      | None \<Rightarrow> if key \<in> set Object_prototype then VBuiltin key else VUndefined)"

fun truthy :: "js_value \<Rightarrow> bool" where
  "truthy (VString s) = (s \<noteq> [])"
| "truthy (VBuiltin f) = True"
| "truthy VUndefined = False"

definition translateOrderStatus :: "jsstring \<Rightarrow> js_value" where
  "translateOrderStatus st =
     (let v = get_property statusMap st in if truthy v then v else VString st)"

section \<open>Chat surface, typing flag, containers\<close>

definition updateSendButtonState :: "widget \<Rightarrow> widget" where
  "updateSendButtonState s = s\<lparr>sendButton_disabled := (trim (chatInput s) = [])\<rparr>"

definition addUserMessageToChat :: "jsstring \<Rightarrow> widget \<Rightarrow> widget" where
  "addUserMessageToChat text s =
     log_effect (ChatAppended (UserMessage text))
       (s\<lparr>chatWindow := chatWindow s @ [UserMessage text]\<rparr>)"

definition addBotMessageToChat :: "jsstring \<Rightarrow> bool \<Rightarrow> widget \<Rightarrow> widget" where
  "addBotMessageToChat text includeQuickActions s =
     log_effect (ChatAppended (BotMessage text includeQuickActions))
       (s\<lparr>chatWindow := chatWindow s @ [BotMessage text includeQuickActions]\<rparr>)"

definition setTypingState :: "bool \<Rightarrow> widget \<Rightarrow> widget" where
  "setTypingState typing s =
     log_effect (TypingSet typing) (s\<lparr>isTyping := typing, typingIndicator_active := typing\<rparr>)"

definition hideAllResponseContainers :: "widget \<Rightarrow> widget" where
  "hideAllResponseContainers s =
     log_effect ContainersHidden
       (s\<lparr>productContainer_active := False, orderContainer_active := False,
          productContainer_html := [], orderContainer_html := None\<rparr>)"

section \<open>Product renderer\<close>

definition contact_us :: jsstring where
  "contact_us = ascii ''Li'' @ [234] @ ascii ''n h'' @ [7879]"

definition formattedPrice :: "product \<Rightarrow> jsstring" where
  "formattedPrice p =
     (case regular_price p of
        Some pr \<Rightarrow> formatPrice (pvalue pr) @ ascii '' '' @ pcurrency pr
      | None \<Rightarrow> contact_us)"

definition render_card :: "product \<Rightarrow> product_card" where
  "render_card p =
     \<lparr>img_src = or_string (small_image_url p) (ascii ''placeholder-image.png''),
      card_name = name p, card_sku = sku p, card_price = formattedPrice p\<rparr>"

text \<open>\<open>result.products.forEach\<close>: one card appended to \<open>html\<close> per product.\<close>

fun render_products :: "product list \<Rightarrow> product_token list \<Rightarrow> product_token list" where
  "render_products [] html = html"
| "render_products (p # ps) html = render_products ps (html @ [Card (render_card p)])"

text \<open>
  The \<open>for ... in\<close> loop over \<open>data.results\<close>, whose entries are listed in the order the
  loop visits them. \<open>continue\<close> goes on with the next keyword. \<open>result.products.forEach\<close> on
  a missing \<open>products\<close> is a call on \<open>undefined\<close>: a TypeError that leaves the loop and the
  renderer.
\<close>

fun render_results ::
  "(jsstring \<times> search_result) list \<Rightarrow> product_token list \<Rightarrow> js_error + product_token list" where
  "render_results [] html = Inr html"
| "render_results ((keyword, result) # rest) html =
     (case if_truthy (error result) of
        Some e \<Rightarrow> render_results rest (html @ [ErrorMessage keyword e])
      | None \<Rightarrow>
          if total_count result = Some 0 then render_results rest (html @ [NoResults keyword])
          else
            (case products result of
               None \<Rightarrow> Inl TypeError
             | Some ps \<Rightarrow>
                 render_results rest
                   (render_products ps (html @ [SectionOpen keyword (total_count result)])
                      @ [SectionClose])))"

definition renderProductResponse :: "payload \<Rightarrow> widget \<Rightarrow> js_error option \<times> widget" where
  "renderProductResponse d s =
     (let s1 = log_effect ProductRendererCalled (s\<lparr>productContainer_active := True\<rparr>) in
      case render_results (case results d of None \<Rightarrow> [] | Some rs \<Rightarrow> rs) [Heading] of
        Inl e \<Rightarrow> (Some e, s1)
      | Inr html \<Rightarrow> (None, s1\<lparr>productContainer_html := html\<rparr>))"

section \<open>Order renderer\<close>

text \<open>\<open>typeof data.currency !== 'undefined' ? data.currency : 'VND'\<close>, as it is printed.\<close>

definition currency_or_VND :: "payload \<Rightarrow> jsstring" where
  "currency_or_VND d =
     (case currency d of
        NoCurrency \<Rightarrow> ascii ''VND''
      | NullCurrency \<Rightarrow> ascii ''null''
      | Currency c \<Rightarrow> c)"

text \<open>\<open>data.items.forEach\<close>: \<open>itemsHTML\<close> and the running total (\<open>total'\<close>) are the accumulator.\<close>

fun render_items ::
  "order_item list \<Rightarrow> jsstring \<Rightarrow> order_line list \<times> jsnum \<Rightarrow> order_line list \<times> jsnum" where
  "render_items [] cur (itemsHTML, total') = (itemsHTML, total')"
| "render_items (item # rest) cur (itemsHTML, total') =
     (let itemTotal = js_mul (price item) (quantity item) in
      render_items rest cur
        (itemsHTML @
           [\<lparr>line_name = item_name item, line_quantity = quantity item,
             line_total = formatPrice itemTotal, line_currency = cur\<rparr>],
         js_add total' itemTotal))"

definition order_html :: "payload \<Rightarrow> order_info" where
  "order_html d =
     (let (itemsHTML, total') =
            (case items d of
               Some its \<Rightarrow>
                 if length its > 0 then render_items its (currency_or_VND d) ([], Fin 0)
                 else ([], Fin 0)
             | None \<Rightarrow> ([], Fin 0))
      in \<lparr>info_order_id = order_id d,
          info_status_class = status d,
          info_status_label = translateOrderStatus (status d),
          info_order_date = or_string (order_date d) (ascii ''N/A''),
          info_items = itemsHTML,
          info_total = formatPrice (or_number (total d) total'),
          info_currency = currency_or_VND d\<rparr>)"

definition renderOrderResponse :: "payload \<Rightarrow> widget \<Rightarrow> widget" where
  "renderOrderResponse d s =
     (let s1 = log_effect OrderRendererCalled (s\<lparr>orderContainer_active := True\<rparr>)
      in s1\<lparr>orderContainer_html := Some (order_html d)\<rparr>)"

section \<open>Dispatch\<close>

definition processResponse :: "response \<Rightarrow> widget \<Rightarrow> js_error option \<times> widget" where
  "processResponse r s =
     (let s1 = hideAllResponseContainers s;
          s2 = addBotMessageToChat (message r) False s1
      in if rtype r = ascii ''product'' \<and> data r \<noteq> None
         then renderProductResponse (the (data r)) s2
         else if rtype r = ascii ''order'' \<and> data r \<noteq> None
         then (None, renderOrderResponse (the (data r)) s2)
         else (None, s2))"


text \<open>
  \<open>processResponse\<close> called with \<open>null\<close>: line 175 clears the containers, and reading
  \<open>response.message\<close> on line 178 throws a TypeError before anything is added to the chat.
\<close>

definition processResponse_null :: "widget \<Rightarrow> js_error option \<times> widget" where
  "processResponse_null s = (Some TypeError, hideAllResponseContainers s)"

section \<open>Transport\<close>

text \<open>
  What \<open>fetch\<close> and \<open>response.json()\<close> can give back while the handler waits: the promise
  is rejected (no connection); or a reply arrives with its HTTP status and a body that
  decodes to a response object or is not JSON (\<open>Responded\<close>, with \<open>None\<close> for the body
  that does not decode); or a reply arrives whose body is the JSON text \<open>null\<close>
  (\<open>RespondedNull\<close>). \<open>response.ok\<close> is a status from 200 to 299. A body that is another
  JSON value (a number, a string, an object without \<open>message\<close> or \<open>type\<close>) is not a value
  of these types.
\<close>

datatype fetch_result = Rejected | Responded nat "response option" | RespondedNull nat

text \<open>What \<open>response.json()\<close> resolves to: \<open>null\<close> or a response object.\<close>

datatype reply = JsonNull | JsonObject response

definition response_ok :: "nat \<Rightarrow> bool" where
  "response_ok st = (200 \<le> st \<and> st \<le> 299)"

text \<open>\<open>sendUserMessage\<close> up to its \<open>await fetch\<close>: the request is built and sent.\<close>

definition sendUserMessage :: "jsstring \<Rightarrow> widget \<Rightarrow> request \<times> widget" where
  "sendUserMessage userMessage s =
     (let req = \<lparr>req_message = userMessage, session_id = sessionId s, user_id = userId s\<rparr>
      in (req, log_effect (FetchCalled req) s))"

text \<open>\<open>sendUserMessage\<close> after the \<open>await\<close>: the value it returns or the error it throws.\<close>

fun sendUserMessage_await :: "fetch_result \<Rightarrow> js_error + reply" where
  "sendUserMessage_await Rejected = Inl NetworkError"
| "sendUserMessage_await (Responded st body) =
     (if \<not> response_ok st then Inl (HttpError st)
      else case body of None \<Rightarrow> Inl SyntaxError | Some r \<Rightarrow> Inr (JsonObject r))"
| "sendUserMessage_await (RespondedNull st) =
     (if \<not> response_ok st then Inl (HttpError st) else Inr JsonNull)"

section \<open>Handling a user message\<close>

definition failure_notice :: jsstring where
  "failure_notice =
     ascii ''Xin l'' @ [7895] @ ascii ''i, t'' @ [244] @ ascii ''i kh'' @ [244] @ ascii ''ng th''
     @ [7875] @ ascii '' x'' @ [7917] @ ascii '' l'' @ [253] @ ascii '' y'' @ [234] @ ascii ''u c''
     @ [7847] @ ascii ''u c'' @ [7911] @ ascii ''a b'' @ [7841] @ ascii ''n l'' @ [250]
     @ ascii ''c n'' @ [224] @ ascii ''y. Vui l'' @ [242] @ ascii ''ng th'' @ [7917] @ ascii '' l''
     @ [7841] @ ascii ''i sau.''"

text \<open>
  \<open>handleUserMessage\<close> up to \<open>await sendUserMessage(userMessage)\<close>. The result is the
  request handed to \<open>fetch\<close>, or \<open>None\<close> when the handler returned at its guard.
\<close>

definition handleUserMessage :: "widget \<Rightarrow> request option \<times> widget" where
  "handleUserMessage s =
     (let userMessage = trim (chatInput s) in
      if userMessage = [] \<or> isTyping s then (None, s)
      else
        let s1 = log_effect InputCleared (s\<lparr>chatInput := []\<rparr>);
            s2 = updateSendButtonState s1;
            s3 = addUserMessageToChat userMessage s2;
            s4 = log_effect (HistoryPushed (UserEntry userMessage))
                   (s3\<lparr>conversationHistory := conversationHistory s3 @ [UserEntry userMessage]\<rparr>);
            s5 = setTypingState True s4;
            (req, s6) = sendUserMessage userMessage s5
        in (Some req, s6))"

text \<open>The \<open>catch\<close> block.\<close>

definition handleUserMessage_catch :: "js_error \<Rightarrow> widget \<Rightarrow> widget" where
  "handleUserMessage_catch e s =
     (let s1 = setTypingState False s;
          s2 = addBotMessageToChat failure_notice False s1
      in log_effect ConsoleLogged s2)"

text \<open>
  \<open>handleUserMessage\<close> from the moment the awaited call settles. First the \<open>try\<close> block:
  what \<open>sendUserMessage\<close> throws leaves it at once, what \<open>processResponse\<close> throws leaves
  it before the push onto \<open>conversationHistory\<close>. The first component is the error thrown,
  if any.
\<close>

definition handleUserMessage_try :: "fetch_result \<Rightarrow> widget \<Rightarrow> js_error option \<times> widget" where
  "handleUserMessage_try fr s =
     (case sendUserMessage_await fr of
        Inl e \<Rightarrow> (Some e, s)
      | Inr JsonNull \<Rightarrow> processResponse_null (setTypingState False s)
      | Inr (JsonObject botResponse) \<Rightarrow>
          let s1 = setTypingState False s;
              (thrown, s2) = processResponse botResponse s1
          in case thrown of
               Some e \<Rightarrow> (Some e, s2)
             | None \<Rightarrow>
                 let entry = BotEntry (message botResponse) (rtype botResponse) (data botResponse)
                 in (None, log_effect (HistoryPushed entry)
                       (s2\<lparr>conversationHistory := conversationHistory s2 @ [entry]\<rparr>)))"

text \<open>
  Then \<open>try\<close> and \<open>catch\<close> together: an error thrown in the \<open>try\<close> block runs the \<open>catch\<close>
  block. The first component is the error that leaves the handler, if any.
\<close>

definition handleUserMessage_await :: "fetch_result \<Rightarrow> widget \<Rightarrow> js_error option \<times> widget" where
  "handleUserMessage_await fr s =
     (case handleUserMessage_try fr s of
        (Some e, s') \<Rightarrow> (None, handleUserMessage_catch e s')
      | (None, s') \<Rightarrow> (None, s'))"

section \<open>Connection check and follow-up actions\<close>

definition offline_notice :: jsstring where
  "offline_notice =
     ascii ''Xin l'' @ [7895] @ ascii ''i, d'' @ [7883] @ ascii ''ch v'' @ [7909] @ ascii '' hi''
     @ [7879] @ ascii ''n '' @ [273] @ ascii ''ang ngo'' @ [7841] @ ascii ''i tuy'' @ [7871]
     @ ascii ''n. Vui l'' @ [242] @ ascii ''ng th'' @ [7917] @ ascii '' l'' @ [7841]
     @ ascii ''i sau ho'' @ [7863] @ ascii ''c li'' @ [234] @ ascii ''n h'' @ [7879] @ ascii '' b''
     @ [7897] @ ascii '' ph'' @ [7853] @ ascii ''n h'' @ [7895] @ ascii '' tr'' @ [7907] @ ascii ''.''"

definition setOfflineStatus :: "widget \<Rightarrow> widget" where
  "setOfflineStatus s =
     addBotMessageToChat offline_notice False
       (s\<lparr>status_online := False,
          status_text := ascii ''Ngo'' @ [7841] @ ascii ''i tuy'' @ [7871] @ ascii ''n''\<rparr>)"

text \<open>The branch of \<open>checkAPIConnection\<close> for \<open>response.ok\<close>.\<close>

definition setOnlineStatus :: "widget \<Rightarrow> widget" where
  "setOnlineStatus s =
     s\<lparr>status_online := True,
       status_text := [272] @ ascii ''ang ho'' @ [7841] @ ascii ''t '' @ [273, 7897] @ ascii ''ng''\<rparr>"

text \<open>
  \<open>checkAPIConnection\<close> from the moment its \<open>HEAD\<close> request settles; only the status of
  the reply is looked at.
\<close>

fun checkAPIConnection_await :: "fetch_result \<Rightarrow> widget \<Rightarrow> widget" where
  "checkAPIConnection_await Rejected s = setOfflineStatus s"
| "checkAPIConnection_await (Responded st body) s =
     (if response_ok st then setOnlineStatus s else setOfflineStatus s)"
| "checkAPIConnection_await (RespondedNull st) s =
     (if response_ok st then setOnlineStatus s else setOfflineStatus s)"

definition handleAddToCart :: "jsstring \<Rightarrow> widget \<Rightarrow> widget" where
  "handleAddToCart sku' s =
     addBotMessageToChat
       ([272, 227] @ ascii '' th'' @ [234] @ ascii ''m s'' @ [7843] @ ascii ''n ph'' @ [7849]
        @ ascii ''m c'' @ [243] @ ascii '' m'' @ [227] @ ascii '' <strong>'' @ sku'
        @ ascii ''</strong> v'' @ [224] @ ascii ''o gi'' @ [7887] @ ascii '' h'' @ [224]
        @ ascii ''ng c'' @ [7911] @ ascii ''a b'' @ [7841] @ ascii ''n!'')
       False (log_effect ConsoleLogged s)"

definition handleOrderAction :: "jsstring \<Rightarrow> jsstring \<Rightarrow> widget \<Rightarrow> widget" where
  "handleOrderAction action orderId s =
     (if action = ascii ''track'' then
        addBotMessageToChat
          ([272, 417] @ ascii ''n h'' @ [224] @ ascii ''ng #'' @ orderId @ ascii '' '' @ [273]
           @ ascii ''ang trong qu'' @ [225] @ ascii '' tr'' @ [236] @ ascii ''nh v'' @ [7853]
           @ ascii ''n chuy'' @ [7875] @ ascii ''n. D'' @ [7921] @ ascii '' ki'' @ [7871]
           @ ascii ''n giao h'' @ [224] @ ascii ''ng trong 3-5 ng'' @ [224] @ ascii ''y l'' @ [224]
           @ ascii ''m vi'' @ [7879] @ ascii ''c.'')
          False s
      else if action = ascii ''cancel'' then
        addBotMessageToChat
          (ascii ''Y'' @ [234] @ ascii ''u c'' @ [7847] @ ascii ''u h'' @ [7911] @ ascii ''y ''
           @ [273, 417] @ ascii ''n h'' @ [224] @ ascii ''ng #'' @ orderId @ ascii '' '' @ [273, 227]
           @ ascii '' '' @ [273, 432, 7907] @ ascii ''c ghi nh'' @ [7853] @ ascii ''n. B'' @ [7897]
           @ ascii '' ph'' @ [7853] @ ascii ''n CSKH s'' @ [7869] @ ascii '' li'' @ [234]
           @ ascii ''n h'' @ [7879] @ ascii '' v'' @ [7899] @ ascii ''i b'' @ [7841]
           @ ascii ''n trong th'' @ [7901] @ ascii ''i gian s'' @ [7899] @ ascii ''m nh'' @ [7845]
           @ ascii ''t.'')
          False s
      else s)"

section \<open>Events of the page\<close>

text \<open>
  Everything that can run a piece of the script once the page is set up: the listeners the
  script registers, and the two awaited network calls settling.
\<close>

datatype event =
    InputChanged jsstring
  | ClearInputClicked
  | SendRequested
  | QuickActionClicked jsstring
  | TransportSettled fetch_result
  | ProbeSettled fetch_result
  | AddToCartClicked jsstring
  | OrderActionClicked jsstring jsstring

fun step :: "event \<Rightarrow> widget \<Rightarrow> widget" where
  "step (InputChanged text) s = updateSendButtonState (s\<lparr>chatInput := text\<rparr>)"
| "step ClearInputClicked s = updateSendButtonState (s\<lparr>chatInput := []\<rparr>)"
| "step SendRequested s = snd (handleUserMessage s)"
| "step (QuickActionClicked action) s = snd (handleUserMessage (s\<lparr>chatInput := action\<rparr>))"
| "step (TransportSettled fr) s = snd (handleUserMessage_await fr s)"
| "step (ProbeSettled fr) s = checkAPIConnection_await fr s"
| "step (AddToCartClicked sku') s = handleAddToCart sku' s"
| "step (OrderActionClicked action orderId) s = handleOrderAction action orderId s"

fun run :: "event list \<Rightarrow> widget \<Rightarrow> widget" where
  "run [] s = s"
| "run (e # es) s = run es (step e s)"

text \<open>
  The state when the script has run its set-up code on a page whose chat window and
  containers are empty: \<open>isTyping = false\<close>, \<open>conversationHistory = []\<close>, \<open>userId = null\<close>,
  the send button disabled for the empty input.
\<close>

definition startup :: "jsstring \<Rightarrow> widget" where
  "startup sid =
     \<lparr>chatInput = [], sendButton_disabled = True, chatWindow = [],
      productContainer_active = False, productContainer_html = [],
      orderContainer_active = False, orderContainer_html = None,
      typingIndicator_active = False, status_online = False, status_text = [],
      sessionId = sid, userId = None, isTyping = False, conversationHistory = [],
      effects = []\<rparr>"


section \<open>Scenarios\<close>

text \<open>Concrete inputs: the scenarios of the widget's description and the edge cases.\<close>

definition sid0 :: jsstring where
  "sid0 = ascii ''a1b2-c3d4-e5f6-a7b8''"

definition no_payload :: payload where
  "no_payload =
     \<lparr>results = None, order_id = [], status = [], order_date = None, currency = NoCurrency,
      items = None, total = None\<rparr>"

definition plain_reply :: response where
  "plain_reply = \<lparr>message = ascii ''Xin chao'', rtype = ascii ''none'', data = None\<rparr>"

definition shirt :: product where
  "shirt =
     \<lparr>sku = ascii ''A1'', name = [193] @ ascii ''o thun'', small_image_url = None,
      regular_price = Some \<lparr>pvalue = Fin 150000, pcurrency = ascii ''VND''\<rparr>\<rparr>"

definition shirt_search :: payload where
  "shirt_search =
     no_payload\<lparr>results :=
       Some [([225, 111], \<lparr>error = None, total_count = Some 1, products = Some [shirt]\<rparr>)]\<rparr>"

definition product_reply :: response where
  "product_reply =
     \<lparr>message = ascii ''...'', rtype = ascii ''product'', data = Some shirt_search\<rparr>"

definition shipped_order :: payload where
  "shipped_order =
     no_payload\<lparr>order_id := ascii ''1001'', status := ascii ''shipped'',
       items := Some [\<lparr>item_name = ascii ''A'', quantity = Fin 2, price = Fin 150000\<rparr>,
                      \<lparr>item_name = ascii ''B'', quantity = Fin 1, price = Fin 99000\<rparr>]\<rparr>"

definition order_reply :: response where
  "order_reply = \<lparr>message = ascii ''...'', rtype = ascii ''order'', data = Some shipped_order\<rparr>"

definition counted_without_products :: payload where
  "counted_without_products =
     no_payload\<lparr>results :=
       Some [(ascii ''xyz'', \<lparr>error = None, total_count = Some 3, products = None\<rparr>)]\<rparr>"

definition three_keywords :: payload where
  "three_keywords =
     no_payload\<lparr>results :=
       Some [(ascii ''abc'', \<lparr>error = Some (ascii ''timeout''), total_count = None, products = None\<rparr>),
             (ascii ''xyz'', \<lparr>error = None, total_count = Some 0, products = Some []\<rparr>),
             ([225, 111], \<lparr>error = None, total_count = Some 1, products = Some [shirt]\<rparr>)]\<rparr>"

definition large_order :: payload where
  "large_order =
     no_payload\<lparr>order_id := ascii ''1002'', status := ascii ''pending'',
       items := Some [\<lparr>item_name = ascii ''A'', quantity = Fin 94906267,
                       price = Fin 94906267\<rparr>]\<rparr>"

definition returned_order :: payload where
  "returned_order =
     no_payload\<lparr>order_id := ascii ''1003'', status := ascii ''refunded'',
       currency := NullCurrency,
       items := Some [\<lparr>item_name = ascii ''A'', quantity = Fin 0, price = Fin (- 5)\<rparr>]\<rparr>"

definition typed :: "string \<Rightarrow> widget" where
  "typed cs = (startup sid0)\<lparr>chatInput := ascii cs\<rparr>"

definition awaiting_reply :: widget where
  "awaiting_reply = snd (handleUserMessage (typed ''hello''))"

definition after_product_search :: widget where
  "after_product_search =
     run [InputChanged (ascii ''ao''), SendRequested,
          TransportSettled (Responded 200 (Some product_reply)),
          InputChanged (ascii ''hello''), SendRequested]
       (startup sid0)"

section \<open>Amounts in the exact range\<close>

text \<open>
  \<open>exact_amounts t items\<close>: starting from the running total \<open>t\<close>, every price, every
  quantity, every product of the two and every running total of the loop over \<open>items\<close>
  is a whole number below \<open>2^53\<close> in magnitude, the range in which a double holds every
  integer exactly.
\<close>

fun exact_amounts :: "int \<Rightarrow> order_item list \<Rightarrow> bool" where
  "exact_amounts t [] = True"
| "exact_amounts t (item # rest) =
     (case (price item, quantity item) of
        (Fin p, Fin q) \<Rightarrow>
          \<bar>p\<bar> < 2 ^ 53 \<and> \<bar>q\<bar> < 2 ^ 53 \<and> \<bar>p * q\<bar> < 2 ^ 53 \<and> \<bar>t + p * q\<bar> < 2 ^ 53
          \<and> exact_amounts (t + p * q) rest
      | _ \<Rightarrow> False)"

section \<open>Order of effects\<close>

text \<open>
  \<open>happens_before a b es\<close>: in the list of effects \<open>es\<close>, some occurrence of \<open>a\<close> comes
  before an occurrence of \<open>b\<close>. \<open>new_effects s s'\<close> are the effects added on the way from
  \<open>s\<close> to \<open>s'\<close>.
\<close>

fun happens_before :: "effect \<Rightarrow> effect \<Rightarrow> effect list \<Rightarrow> bool" where
  "happens_before a b [] = False"
| "happens_before a b (x # xs) = ((x = a \<and> b \<in> set xs) \<or> happens_before a b xs)"

definition new_effects :: "widget \<Rightarrow> widget \<Rightarrow> effect list" where
  "new_effects s s' = drop (length (effects s)) (effects s')"

section \<open>Facts about strings\<close>

lemma ascii_eq_iff: "ascii a = ascii b \<longleftrightarrow> a = b"
proof -
  have "inj (of_char :: char \<Rightarrow> nat)"
    by (rule injI) simp
  then show ?thesis
    unfolding ascii_def by (simp add: inj_map_eq_map)
qed

lemma ascii_Nil: "ascii [] = []"
  by (simp add: ascii_def)

lemma ascii_eq_Nil: "ascii cs = [] \<longleftrightarrow> cs = []"
  by (simp add: ascii_def)

section \<open>Rejected submissions\<close>

text \<open>
  Claim C1. When the input is empty after trimming, or while \<open>isTyping\<close> is true,
  \<open>handleUserMessage\<close> returns at its guard: it hands no request to \<open>fetch\<close> (the result is
  \<open>None\<close>) and the state is the one it started from, so the chat window, the conversation
  history, \<open>isTyping\<close> and the list of effects are all unchanged.
\<close>

theorem handleUserMessage_rejected:
  assumes "trim (chatInput s) = [] \<or> isTyping s"
  shows "handleUserMessage s = (None, s)"
  using assms by (auto simp: handleUserMessage_def Let_def)

theorem handleUserMessage_rejected_witness:
  "trim (chatInput (typed ''   '')) = []
   \<and> handleUserMessage (typed ''   '') = (None, typed ''   '')
   \<and> isTyping ((typed ''hello'')\<lparr>isTyping := True\<rparr>)
   \<and> handleUserMessage ((typed ''hello'')\<lparr>isTyping := True\<rparr>)
       = (None, (typed ''hello'')\<lparr>isTyping := True\<rparr>)"
proof -
  have blank: "trim (chatInput (typed ''   '')) = []"
    by (simp add: typed_def trim_def ascii_def is_whitespace_def)
  have busy: "isTyping ((typed ''hello'')\<lparr>isTyping := True\<rparr>)"
    by simp
  show ?thesis
    using blank busy
      handleUserMessage_rejected [of "typed ''   ''"]
      handleUserMessage_rejected [of "(typed ''hello'')\<lparr>isTyping := True\<rparr>"]
    by simp
qed


section \<open>Arithmetic in the exact range\<close>

lemma to_double_exact:
  assumes "\<bar>n\<bar> < 2 ^ 53"
  shows "to_double n = Fin n"
proof -
  have small: "nat \<bar>n\<bar> \<le> 2 ^ 53"
    using assms by (simp add: nat_le_iff)
  have "(2::nat) ^ 53 < 2 ^ 1024"
    by simp
  with small have finite: "\<not> nat \<bar>n\<bar> \<ge> 2 ^ 1024"
    by linarith
  from small have "round_to_53_bits (nat \<bar>n\<bar>) = nat \<bar>n\<bar>"
    by (simp add: round_to_53_bits_def)
  with finite show ?thesis
    by (simp add: to_double_def Let_def)
qed

lemma js_mul_exact:
  assumes "\<bar>p\<bar> < 2 ^ 53" and "\<bar>q\<bar> < 2 ^ 53" and "\<bar>p * q\<bar> < 2 ^ 53"
  shows "js_mul (Fin p) (Fin q) =
     (if p * q = 0 then (if (p < 0) \<noteq> (q < 0) then NegZero else Fin 0) else Fin (p * q))"
  using assms by (auto simp: js_mul_def Let_def to_double_exact)

lemma js_add_exact:
  assumes "\<bar>t\<bar> < 2 ^ 53" and "\<bar>v\<bar> < 2 ^ 53" and "\<bar>t + v\<bar> < 2 ^ 53"
  shows "js_add (Fin t) (Fin v) = Fin (t + v)"
  using assms by (auto simp: js_add_def Let_def to_double_exact)

lemma js_add_zero:
  assumes "\<bar>t\<bar> < 2 ^ 53"
  shows "js_add (Fin t) (Fin 0) = Fin t" and "js_add (Fin t) NegZero = Fin t"
  using assms by (auto simp: js_add_def Let_def to_double_exact)

lemma loop_step_exact:
  assumes "\<bar>t\<bar> < 2 ^ 53" and "\<bar>p\<bar> < 2 ^ 53" and "\<bar>q\<bar> < 2 ^ 53"
    and "\<bar>p * q\<bar> < 2 ^ 53" and "\<bar>t + p * q\<bar> < 2 ^ 53"
  shows "js_add (Fin t) (js_mul (Fin p) (Fin q)) = Fin (t + p * q)"
proof (cases "p * q = 0")
  case True
  have "js_mul (Fin p) (Fin q) =
     (if p * q = 0 then (if (p < 0) \<noteq> (q < 0) then NegZero else Fin 0) else Fin (p * q))"
    using assms(2-4) by (rule js_mul_exact)
  with True have "js_mul (Fin p) (Fin q) = (if (p < 0) \<noteq> (q < 0) then NegZero else Fin 0)"
    by (metis (full_types))
  then have "js_mul (Fin p) (Fin q) = NegZero \<or> js_mul (Fin p) (Fin q) = Fin 0"
    by (cases "(p < 0) \<noteq> (q < 0)") simp_all
  then have "js_add (Fin t) (js_mul (Fin p) (Fin q)) = Fin t"
    using js_add_zero [OF assms(1)] by auto
  with True show ?thesis by simp
next
  case False
  have "js_mul (Fin p) (Fin q) =
     (if p * q = 0 then (if (p < 0) \<noteq> (q < 0) then NegZero else Fin 0) else Fin (p * q))"
    using assms(2-4) by (rule js_mul_exact)
  with False have "js_mul (Fin p) (Fin q) = Fin (p * q)"
    by (metis (full_types))
  then show ?thesis
    using js_add_exact [OF assms(1) assms(4) assms(5)] by simp
qed

lemma exact_amounts_total:
  assumes "exact_amounts t its" and "\<bar>t\<bar> < 2 ^ 53"
  shows "foldl (\<lambda>acc item. js_add acc (js_mul (price item) (quantity item))) (Fin t) its =
           Fin (t + (\<Sum>item\<leftarrow>its. int_of (price item) * int_of (quantity item)))
         \<and> \<bar>t + (\<Sum>item\<leftarrow>its. int_of (price item) * int_of (quantity item))\<bar> < 2 ^ 53"
  using assms
proof (induction its arbitrary: t)
  case Nil
  then show ?case by simp
next
  case (Cons item its)
  from Cons.prems(1) obtain p q where
    pq: "price item = Fin p" "quantity item = Fin q" and
    bounds: "\<bar>p\<bar> < 2 ^ 53" "\<bar>q\<bar> < 2 ^ 53" "\<bar>p * q\<bar> < 2 ^ 53" "\<bar>t + p * q\<bar> < 2 ^ 53" and
    rest: "exact_amounts (t + p * q) its"
    by (auto split: jsnum.splits)
  have step: "js_add (Fin t) (js_mul (Fin p) (Fin q)) = Fin (t + p * q)"
    using Cons.prems(2) bounds by (rule loop_step_exact)
  from Cons.IH [OF rest bounds(4)] show ?case
    by (simp add: step pq add.assoc)
qed

lemma formatPrice_exact:
  assumes "\<bar>n\<bar> < 2 ^ 53"
  shows "formatPrice (Fin n) = format_integer n"
proof -
  have "nat \<bar>n\<bar> < 2 ^ 53"
    using assms by (simp add: nat_less_iff)
  then have "shortest_decimal (nat \<bar>n\<bar>) = nat \<bar>n\<bar>"
    by (simp add: shortest_decimal_def)
  then show ?thesis
    using assms by (simp add: formatPrice_def format_integer_def to_double_exact)
qed

section \<open>Order renderer: the displayed total\<close>

lemma render_items_acc:
  "render_items its cur (html, t) =
     (html @ map (\<lambda>item. \<lparr>line_name = item_name item, line_quantity = quantity item,
                            line_total = formatPrice (js_mul (price item) (quantity item)),
                            line_currency = cur\<rparr>) its,
      foldl (\<lambda>acc item. js_add acc (js_mul (price item) (quantity item))) t its)"
  by (induction its arbitrary: html t) (simp_all add: Let_def)

lemma order_html_total:
  "info_total (order_html d) =
     formatPrice (or_number (total d)
       (foldl (\<lambda>acc item. js_add acc (js_mul (price item) (quantity item))) (Fin 0)
          (case items d of None \<Rightarrow> [] | Some its \<Rightarrow> its)))"
  by (simp add: order_html_def render_items_acc split: option.split)

lemma renderOrderResponse_html:
  "orderContainer_html (renderOrderResponse d s) = Some (order_html d)"
  by (simp add: renderOrderResponse_def log_effect_def)

lemma displayed_total:
  "map_option info_total (orderContainer_html (renderOrderResponse d s)) =
     Some (formatPrice (or_number (total d)
       (foldl (\<lambda>acc item. js_add acc (js_mul (price item) (quantity item))) (Fin 0)
          (case items d of None \<Rightarrow> [] | Some its \<Rightarrow> its))))"
  by (simp add: renderOrderResponse_html order_html_total)

lemma large_product: "js_mul (Fin 94906267) (Fin 94906267) = Fin 9007199515875288"
  by (simp add: js_mul_def to_double_def round_to_53_bits_def bit_length.simps Let_def)

lemma large_total: "js_add (Fin 0) (Fin 9007199515875288) = Fin 9007199515875288"
  by (simp add: js_add_def to_double_def round_to_53_bits_def bit_length.simps Let_def)

lemma large_total_written:
  "formatPrice (Fin 9007199515875288) = ascii ''9.007.199.515.875.288''"
  by (simp add: formatPrice_def shortest_decimal_def to_double_def round_to_53_bits_def
      bit_length.simps digits.simps Let_def ascii_def)

lemma large_order_displayed:
  "total d = None \<or> total d = Some (Fin 0) \<Longrightarrow> items d = items large_order \<Longrightarrow>
     map_option info_total (orderContainer_html (renderOrderResponse d s)) =
       Some (ascii ''9.007.199.515.875.288'')"
  by (auto simp: displayed_total or_number_def truthy_number_def to_double_exact large_order_def
      no_payload_def large_product large_total large_total_written)

lemma shipped_order_exact:
  "exact_amounts 0 (case items shipped_order of None \<Rightarrow> [] | Some its \<Rightarrow> its)"
  "(\<Sum>item\<leftarrow>(case items shipped_order of None \<Rightarrow> [] | Some its \<Rightarrow> its).
      int_of (price item) * int_of (quantity item)) = 399000"
  "format_integer 399000 = ascii ''399.000''"
  by (simp_all add: shipped_order_def no_payload_def format_integer_def digits.simps ascii_def)

text \<open>
  An order with one item of quantity 0 and price -5 and a \<open>null\<close> currency: the item's
  total is \<open>-0\<close>, written \<open>-0\<close>; the running total stays \<open>+0\<close>; the currency is printed
  as \<open>null\<close>.
\<close>

lemma formatPrice_two_to_64:
  "formatPrice (Fin 18446744073709551616) = ascii ''18.446.744.073.709.552.000''"
  by (simp add: formatPrice_def shortest_decimal_def to_double_def round_to_53_bits_def
      bit_length.simps digits.simps Let_def ascii_def)

lemma formatPrice_special:
  "formatPrice NegZero = ascii ''-0''"
  "formatPrice NaN = ascii ''NaN''"
  "formatPrice PosInf = [8734]"
  "formatPrice NegInf = [45, 8734]"
  by (simp_all add: formatPrice_def ascii_def)

lemma returned_order_written:
  "map line_total (info_items (order_html returned_order)) = [ascii ''-0'']"
  "info_total (order_html returned_order) = ascii ''0''"
  "info_currency (order_html returned_order) = ascii ''null''"
  by (simp_all add: order_html_def returned_order_def no_payload_def currency_or_VND_def
      Let_def js_mul_def js_add_def to_double_exact or_number_def formatPrice_special
      formatPrice_exact format_integer_def digits.simps ascii_def)

text \<open>
  Claim C6, as stated, fails where the script's arithmetic rounds. One item with quantity
  and price 94906267, no \<open>total\<close>: the sum of price times quantity is
  9007199515875289, an odd number above \<open>2^53\<close>; the product in doubles is
  9007199515875288, and that is the total the order container shows.
\<close>

theorem displayed_total_rounded_counterexample:
  "total large_order = None
   \<and> (\<Sum>item\<leftarrow>(case items large_order of None \<Rightarrow> [] | Some its \<Rightarrow> its).
        int_of (price item) * int_of (quantity item)) = 9007199515875289
   \<and> format_integer 9007199515875289 = ascii ''9.007.199.515.875.289''
   \<and> map_option info_total
         (orderContainer_html (renderOrderResponse large_order (startup sid0)))
       = Some (ascii ''9.007.199.515.875.288'')
   \<and> map_option info_total
         (orderContainer_html (renderOrderResponse large_order (startup sid0)))
       \<noteq> Some (format_integer
             (\<Sum>item\<leftarrow>(case items large_order of None \<Rightarrow> [] | Some its \<Rightarrow> its).
                int_of (price item) * int_of (quantity item)))"
proof -
  have absent: "total large_order = None"
    by (simp add: large_order_def no_payload_def)
  have sum: "(\<Sum>item\<leftarrow>(case items large_order of None \<Rightarrow> [] | Some its \<Rightarrow> its).
        int_of (price item) * int_of (quantity item)) = 9007199515875289"
    by (simp add: large_order_def no_payload_def)
  have written: "format_integer 9007199515875289 = ascii ''9.007.199.515.875.289''"
    by (simp add: format_integer_def digits.simps ascii_def)
  have shown: "map_option info_total
         (orderContainer_html (renderOrderResponse large_order (startup sid0)))
       = Some (ascii ''9.007.199.515.875.288'')"
    using absent by (simp add: large_order_displayed)
  have digits_differ: "ascii ''9.007.199.515.875.288'' \<noteq> ascii ''9.007.199.515.875.289''"
    by (simp add: ascii_eq_iff)
  have differs: "map_option info_total
         (orderContainer_html (renderOrderResponse large_order (startup sid0)))
       \<noteq> Some (format_integer
             (\<Sum>item\<leftarrow>(case items large_order of None \<Rightarrow> [] | Some its \<Rightarrow> its).
                int_of (price item) * int_of (quantity item)))"
    unfolding sum written shown using digits_differ by simp
  from absent sum written shown differs show ?thesis
    by (intro conjI)
qed

text \<open>
  Claim C6, amended. When the order carries no \<open>total\<close>, the total the order renderer
  writes into the order container is the running total of its loop over the items,
  computed in doubles and formatted. When every price, quantity, product and running
  total is a whole number below \<open>2^53\<close> in magnitude, that is the sum, over the items, of
  price times quantity, written as an integer (0 when the order has no items).
\<close>

theorem displayed_total_is_sum_in_exact_range:
  assumes "total d = None"
  shows "map_option info_total (orderContainer_html (renderOrderResponse d s)) =
           Some (formatPrice
             (foldl (\<lambda>acc item. js_add acc (js_mul (price item) (quantity item))) (Fin 0)
                (case items d of None \<Rightarrow> [] | Some its \<Rightarrow> its)))
     \<and> (exact_amounts 0 (case items d of None \<Rightarrow> [] | Some its \<Rightarrow> its) \<longrightarrow>
          map_option info_total (orderContainer_html (renderOrderResponse d s)) =
            Some (format_integer
              (\<Sum>item\<leftarrow>(case items d of None \<Rightarrow> [] | Some its \<Rightarrow> its).
                 int_of (price item) * int_of (quantity item))))"
proof (intro conjI impI)
  show "map_option info_total (orderContainer_html (renderOrderResponse d s)) =
           Some (formatPrice
             (foldl (\<lambda>acc item. js_add acc (js_mul (price item) (quantity item))) (Fin 0)
                (case items d of None \<Rightarrow> [] | Some its \<Rightarrow> its)))"
    using assms by (simp add: displayed_total or_number_def)
next
  assume "exact_amounts 0 (case items d of None \<Rightarrow> [] | Some its \<Rightarrow> its)"
  from exact_amounts_total [OF this]
  show "map_option info_total (orderContainer_html (renderOrderResponse d s)) =
            Some (format_integer
              (\<Sum>item\<leftarrow>(case items d of None \<Rightarrow> [] | Some its \<Rightarrow> its).
                 int_of (price item) * int_of (quantity item)))"
    using assms by (simp add: displayed_total or_number_def formatPrice_exact)
qed

theorem displayed_total_is_sum_in_exact_range_witness:
  "total shipped_order = None
   \<and> exact_amounts 0 (case items shipped_order of None \<Rightarrow> [] | Some its \<Rightarrow> its)
   \<and> map_option info_total
         (orderContainer_html (renderOrderResponse shipped_order (startup sid0)))
       = Some (ascii ''399.000'')"
proof -
  have absent: "total shipped_order = None"
    by (simp add: shipped_order_def no_payload_def)
  from displayed_total_is_sum_in_exact_range [OF absent, of "startup sid0"]
  have "map_option info_total
         (orderContainer_html (renderOrderResponse shipped_order (startup sid0)))
       = Some (format_integer
              (\<Sum>item\<leftarrow>(case items shipped_order of None \<Rightarrow> [] | Some its \<Rightarrow> its).
                 int_of (price item) * int_of (quantity item)))"
    using shipped_order_exact(1) by blast
  with absent shipped_order_exact show ?thesis by simp
qed

text \<open>
  Claim C9. The renderer writes \<open>formatPrice(data.total || total)\<close>, and a \<open>total\<close> of 0
  (or \<open>-0\<close>) is falsy. So an order whose \<open>total\<close> is present and 0 shows exactly what the
  same order without a \<open>total\<close> shows, the running total that the loop computes over the
  items, and not the 0 of the override; in the exact range of the amounts that is the
  sum of price times quantity. A truthy \<open>total\<close> is displayed as it is.
\<close>

theorem displayed_total_override_needs_truthy_total:
  "(is_zero z \<longrightarrow>
      map_option info_total (orderContainer_html (renderOrderResponse (d\<lparr>total := Some z\<rparr>) s)) =
      map_option info_total (orderContainer_html (renderOrderResponse (d\<lparr>total := None\<rparr>) s)))
   \<and> (total d = Some z \<and> is_zero z \<longrightarrow>
      map_option info_total (orderContainer_html (renderOrderResponse d s)) =
        Some (formatPrice
          (foldl (\<lambda>acc item. js_add acc (js_mul (price item) (quantity item))) (Fin 0)
             (case items d of None \<Rightarrow> [] | Some its \<Rightarrow> its))))
   \<and> (total d = Some z \<and> is_zero z
        \<and> exact_amounts 0 (case items d of None \<Rightarrow> [] | Some its \<Rightarrow> its) \<longrightarrow>
      map_option info_total (orderContainer_html (renderOrderResponse d s)) =
        Some (format_integer
          (\<Sum>item\<leftarrow>(case items d of None \<Rightarrow> [] | Some its \<Rightarrow> its).
             int_of (price item) * int_of (quantity item))))
   \<and> (total d = Some n \<and> truthy_number n \<longrightarrow>
      map_option info_total (orderContainer_html (renderOrderResponse d s)) =
        Some (formatPrice n))"
proof -
  have falsy: "is_zero z \<Longrightarrow> \<not> truthy_number z"
    by (cases z) (simp_all add: truthy_number_def to_double_exact)
  have exact: "exact_amounts 0 (case items d of None \<Rightarrow> [] | Some its \<Rightarrow> its) \<Longrightarrow>
      formatPrice
        (foldl (\<lambda>acc item. js_add acc (js_mul (price item) (quantity item))) (Fin 0)
           (case items d of None \<Rightarrow> [] | Some its \<Rightarrow> its)) =
      format_integer
        (\<Sum>item\<leftarrow>(case items d of None \<Rightarrow> [] | Some its \<Rightarrow> its).
           int_of (price item) * int_of (quantity item))"
    using exact_amounts_total [of 0 "case items d of None \<Rightarrow> [] | Some its \<Rightarrow> its"]
    by (simp add: formatPrice_exact)
  show ?thesis
    using falsy exact by (auto simp: displayed_total or_number_def)
qed

theorem displayed_total_override_needs_truthy_total_witness:
  "total (shipped_order\<lparr>total := Some (Fin 0)\<rparr>) = Some (Fin 0)
   \<and> is_zero (Fin 0)
   \<and> map_option info_total
         (orderContainer_html
            (renderOrderResponse (shipped_order\<lparr>total := Some (Fin 0)\<rparr>) (startup sid0)))
       = Some (ascii ''399.000'')
   \<and> formatPrice (Fin 0) = ascii ''0''
   \<and> map_option info_total
         (orderContainer_html
            (renderOrderResponse (large_order\<lparr>total := Some (Fin 0)\<rparr>) (startup sid0)))
       = Some (ascii ''9.007.199.515.875.288'')
   \<and> truthy_number (Fin 500000)
   \<and> map_option info_total
         (orderContainer_html
            (renderOrderResponse (shipped_order\<lparr>total := Some (Fin 500000)\<rparr>) (startup sid0)))
       = Some (ascii ''500.000'')"
proof -
  let ?zero = "shipped_order\<lparr>total := Some (Fin 0)\<rparr>"
  let ?other = "shipped_order\<lparr>total := Some (Fin 500000)\<rparr>"
  have zero: "total ?zero = Some (Fin 0)" "is_zero (Fin 0)"
    by simp_all
  have range: "exact_amounts 0 (case items ?zero of None \<Rightarrow> [] | Some its \<Rightarrow> its)"
    using shipped_order_exact(1) by simp
  have sum: "(\<Sum>item\<leftarrow>(case items ?zero of None \<Rightarrow> [] | Some its \<Rightarrow> its).
      int_of (price item) * int_of (quantity item)) = 399000"
    using shipped_order_exact(2) by simp
  have truthy: "truthy_number (Fin 500000)"
    by (simp add: truthy_number_def to_double_exact)
  have written: "formatPrice (Fin 0) = ascii ''0''" "formatPrice (Fin 500000) = ascii ''500.000''"
    by (simp_all add: formatPrice_exact format_integer_def digits.simps ascii_def)
  from displayed_total_override_needs_truthy_total
    [of "Fin 0" ?zero "startup sid0" "Fin 500000"]
  have "total ?zero = Some (Fin 0) \<and> is_zero (Fin 0)
        \<and> exact_amounts 0 (case items ?zero of None \<Rightarrow> [] | Some its \<Rightarrow> its) \<longrightarrow>
      map_option info_total (orderContainer_html (renderOrderResponse ?zero (startup sid0))) =
        Some (format_integer
          (\<Sum>item\<leftarrow>(case items ?zero of None \<Rightarrow> [] | Some its \<Rightarrow> its).
             int_of (price item) * int_of (quantity item)))"
    by blast
  with zero range
  have "map_option info_total (orderContainer_html (renderOrderResponse ?zero (startup sid0))) =
        Some (format_integer
          (\<Sum>item\<leftarrow>(case items ?zero of None \<Rightarrow> [] | Some its \<Rightarrow> its).
             int_of (price item) * int_of (quantity item)))"
    by blast
  then have small:
    "map_option info_total (orderContainer_html (renderOrderResponse ?zero (startup sid0))) =
       Some (ascii ''399.000'')"
    by (simp only: sum shipped_order_exact(3))
  from displayed_total_override_needs_truthy_total
    [of "Fin 0" large_order "startup sid0" "Fin 500000"]
  have "is_zero (Fin 0) \<longrightarrow>
      map_option info_total
         (orderContainer_html
            (renderOrderResponse (large_order\<lparr>total := Some (Fin 0)\<rparr>) (startup sid0)))
       = map_option info_total
         (orderContainer_html
            (renderOrderResponse (large_order\<lparr>total := None\<rparr>) (startup sid0)))"
    by blast
  with zero(2)
  have "map_option info_total
         (orderContainer_html
            (renderOrderResponse (large_order\<lparr>total := Some (Fin 0)\<rparr>) (startup sid0)))
       = map_option info_total
         (orderContainer_html
            (renderOrderResponse (large_order\<lparr>total := None\<rparr>) (startup sid0)))"
    by blast
  also have "\<dots> = Some (ascii ''9.007.199.515.875.288'')"
    by (rule large_order_displayed) simp_all
  finally have large: "map_option info_total
         (orderContainer_html
            (renderOrderResponse (large_order\<lparr>total := Some (Fin 0)\<rparr>) (startup sid0)))
       = Some (ascii ''9.007.199.515.875.288'')" .
  from displayed_total_override_needs_truthy_total
    [of "Fin 0" ?other "startup sid0" "Fin 500000"]
  have "total ?other = Some (Fin 500000) \<and> truthy_number (Fin 500000) \<longrightarrow>
      map_option info_total (orderContainer_html (renderOrderResponse ?other (startup sid0))) =
        Some (formatPrice (Fin 500000))"
    by blast
  with truthy
  have "map_option info_total (orderContainer_html (renderOrderResponse ?other (startup sid0))) =
        Some (formatPrice (Fin 500000))"
    by simp
  then have other:
    "map_option info_total (orderContainer_html (renderOrderResponse ?other (startup sid0))) =
       Some (ascii ''500.000'')"
    by (simp only: written)
  from zero small written(1) large truthy other show ?thesis
    by (intro conjI)
qed

section \<open>Order renderer: the status label\<close>

lemma statusMap_labels_truthy: "map_of statusMap st = Some label \<Longrightarrow> label \<noteq> []"
  by (auto simp: statusMap_def ascii_def split: if_splits)

lemma translateOrderStatus_known:
  "map_of statusMap st = Some label \<Longrightarrow> translateOrderStatus st = VString label"
  using statusMap_labels_truthy [of st label]
  by (simp add: translateOrderStatus_def get_property_def)

lemma translateOrderStatus_unknown:
  "map_of statusMap st = None \<Longrightarrow> st \<notin> set Object_prototype
     \<Longrightarrow> translateOrderStatus st = VString st"
  by (simp add: translateOrderStatus_def get_property_def)

lemma shipped_label:
  "translateOrderStatus (ascii ''shipped'') = VString ([272] @ ascii ''ang giao h'' @ [224] @ ascii ''ng'')"
  by (rule translateOrderStatus_known) (simp add: statusMap_def ascii_eq_iff)

text \<open>
  Claim C7. The label of a status that is a key of the table is the table's label, and a
  status that is neither a key of the table nor the name of a property inherited from
  \<open>Object.prototype\<close> comes back verbatim (the two lemmas above). But \<open>statusMap[status]\<close>
  also finds the inherited properties: for the status \<open>constructor\<close>, which is not in the
  table, the lookup yields the built-in \<open>Object\<close> function, a truthy value, and
  \<open>translateOrderStatus\<close> returns it instead of the status string.
\<close>

theorem translateOrderStatus_constructor:
  "map_of statusMap (ascii ''constructor'') = None
   \<and> translateOrderStatus (ascii ''constructor'') = VBuiltin (ascii ''constructor'')
   \<and> translateOrderStatus (ascii ''constructor'') \<noteq> VString (ascii ''constructor'')"
  by (simp add: translateOrderStatus_def get_property_def statusMap_def Object_prototype_def
      ascii_eq_iff)


section \<open>Product renderer\<close>

lemma render_products_acc:
  "render_products ps html = html @ map (\<lambda>p. Card (render_card p)) ps"
  by (induction ps arbitrary: html) simp_all

lemma render_results_error: "render_results rs html = Inl e \<Longrightarrow> e = TypeError"
  by (induction rs html rule: render_results.induct) (auto split: option.splits if_splits)

lemma render_results_returns_iff:
  "(\<exists>out. render_results rs html = Inr out) \<longleftrightarrow>
     (\<forall>(k, r) \<in> set rs.
        if_truthy (error r) = None \<and> total_count r \<noteq> Some 0 \<longrightarrow> products r \<noteq> None)"
  by (induction rs html rule: render_results.induct) (auto split: option.splits)

lemma render_results_fragments:
  assumes "\<forall>(k, r) \<in> set rs.
     if_truthy (error r) = None \<and> total_count r \<noteq> Some 0 \<longrightarrow> products r \<noteq> None"
  shows "\<exists>frags. render_results rs html = Inr (html @ concat frags)
     \<and> list_all2
         (\<lambda>(k, r) f.
            (\<forall>e. if_truthy (error r) = Some e \<longrightarrow> f = [ErrorMessage k e])
            \<and> (if_truthy (error r) = None \<and> total_count r = Some 0 \<longrightarrow> f = [NoResults k])
            \<and> (if_truthy (error r) = None \<and> total_count r \<noteq> Some 0 \<longrightarrow>
                 (\<exists>ps. products r = Some ps
                    \<and> f = SectionOpen k (total_count r) # map (\<lambda>p. Card (render_card p)) ps
                          @ [SectionClose])))
         rs frags"
  using assms
proof (induction rs arbitrary: html)
  case Nil
  show ?case by (rule exI [of _ "[]"]) simp
next
  case (Cons kr rs)
  obtain k r where kr: "kr = (k, r)" by (cases kr)
  define f where "f =
    (case if_truthy (error r) of
       Some e \<Rightarrow> [ErrorMessage k e]
     | None \<Rightarrow>
         if total_count r = Some 0 then [NoResults k]
         else SectionOpen k (total_count r)
                # map (\<lambda>p. Card (render_card p)) (case products r of Some ps \<Rightarrow> ps | None \<Rightarrow> [])
                @ [SectionClose])"
  have present: "if_truthy (error r) = None \<and> total_count r \<noteq> Some 0 \<longrightarrow> products r \<noteq> None"
    using Cons.prems kr by simp
  have step: "render_results (kr # rs) html = render_results rs (html @ f)"
    using present
    by (auto simp: kr f_def render_products_acc split: option.splits)
  have rest: "\<forall>(k, r) \<in> set rs.
      if_truthy (error r) = None \<and> total_count r \<noteq> Some 0 \<longrightarrow> products r \<noteq> None"
    using Cons.prems by simp
  from Cons.IH [OF rest, of "html @ f"] obtain frags where
    out: "render_results rs (html @ f) = Inr ((html @ f) @ concat frags)" and
    all: "list_all2
         (\<lambda>(k, r) f.
            (\<forall>e. if_truthy (error r) = Some e \<longrightarrow> f = [ErrorMessage k e])
            \<and> (if_truthy (error r) = None \<and> total_count r = Some 0 \<longrightarrow> f = [NoResults k])
            \<and> (if_truthy (error r) = None \<and> total_count r \<noteq> Some 0 \<longrightarrow>
                 (\<exists>ps. products r = Some ps
                    \<and> f = SectionOpen k (total_count r) # map (\<lambda>p. Card (render_card p)) ps
                          @ [SectionClose])))
         rs frags"
    by blast
  have here:
    "(\<forall>e. if_truthy (error r) = Some e \<longrightarrow> f = [ErrorMessage k e])
     \<and> (if_truthy (error r) = None \<and> total_count r = Some 0 \<longrightarrow> f = [NoResults k])
     \<and> (if_truthy (error r) = None \<and> total_count r \<noteq> Some 0 \<longrightarrow>
          (\<exists>ps. products r = Some ps
             \<and> f = SectionOpen k (total_count r) # map (\<lambda>p. Card (render_card p)) ps
                   @ [SectionClose]))"
    using present by (auto simp: f_def)
  show ?case
  proof (rule exI [of _ "f # frags"], intro conjI)
    show "render_results (kr # rs) html = Inr (html @ concat (f # frags))"
      using step out by simp
    show "list_all2
         (\<lambda>(k, r) f.
            (\<forall>e. if_truthy (error r) = Some e \<longrightarrow> f = [ErrorMessage k e])
            \<and> (if_truthy (error r) = None \<and> total_count r = Some 0 \<longrightarrow> f = [NoResults k])
            \<and> (if_truthy (error r) = None \<and> total_count r \<noteq> Some 0 \<longrightarrow>
                 (\<exists>ps. products r = Some ps
                    \<and> f = SectionOpen k (total_count r) # map (\<lambda>p. Card (render_card p)) ps
                          @ [SectionClose])))
         (kr # rs) (f # frags)"
      using here all by (simp add: kr)
  qed
qed

text \<open>
  Claim C5. Let every keyword entry be one of the three kinds of a product search result:
  an entry with no error and a count other than 0 carries its list of products. Then the
  product renderer returns, and what it writes into the product container is the heading
  followed by one fragment per keyword, in the order of the entries. The fragment of a
  keyword is exactly one of three, by priority: the error line alone when the entry's
  \<open>error\<close> is truthy (present and not the empty string); otherwise the "no results"
  notice alone, with no product card, when \<open>total_count\<close> is 0; otherwise one product
  section holding one card per product.
\<close>

theorem results_rendered_by_priority:
  assumes "results d = Some rs"
    and "\<forall>(k, r) \<in> set rs.
       if_truthy (error r) = None \<and> total_count r \<noteq> Some 0 \<longrightarrow> products r \<noteq> None"
  shows "\<exists>frags.
     fst (renderProductResponse d s) = None
     \<and> productContainer_html (snd (renderProductResponse d s)) = Heading # concat frags
     \<and> list_all2
         (\<lambda>(k, r) f.
            (\<forall>e. if_truthy (error r) = Some e \<longrightarrow> f = [ErrorMessage k e])
            \<and> (if_truthy (error r) = None \<and> total_count r = Some 0 \<longrightarrow> f = [NoResults k])
            \<and> (if_truthy (error r) = None \<and> total_count r \<noteq> Some 0 \<longrightarrow>
                 (\<exists>ps. products r = Some ps
                    \<and> f = SectionOpen k (total_count r) # map (\<lambda>p. Card (render_card p)) ps
                          @ [SectionClose])))
         rs frags"
proof -
  from render_results_fragments [OF assms(2), of "[Heading]"] obtain frags where
    out: "render_results rs [Heading] = Inr ([Heading] @ concat frags)" and
    all: "list_all2
         (\<lambda>(k, r) f.
            (\<forall>e. if_truthy (error r) = Some e \<longrightarrow> f = [ErrorMessage k e])
            \<and> (if_truthy (error r) = None \<and> total_count r = Some 0 \<longrightarrow> f = [NoResults k])
            \<and> (if_truthy (error r) = None \<and> total_count r \<noteq> Some 0 \<longrightarrow>
                 (\<exists>ps. products r = Some ps
                    \<and> f = SectionOpen k (total_count r) # map (\<lambda>p. Card (render_card p)) ps
                          @ [SectionClose])))
         rs frags"
    by blast
  have "fst (renderProductResponse d s) = None
     \<and> productContainer_html (snd (renderProductResponse d s)) = Heading # concat frags"
    using assms(1) out by (simp add: renderProductResponse_def Let_def)
  with all show ?thesis by blast
qed

theorem results_rendered_by_priority_witness:
  "fst (renderProductResponse three_keywords (startup sid0)) = None
   \<and> productContainer_html (snd (renderProductResponse three_keywords (startup sid0))) =
       [Heading,
        ErrorMessage (ascii ''abc'') (ascii ''timeout''),
        NoResults (ascii ''xyz''),
        SectionOpen [225, 111] (Some 1),
        Card \<lparr>img_src = ascii ''placeholder-image.png'', card_name = [193] @ ascii ''o thun'',
              card_sku = ascii ''A1'', card_price = ascii ''150.000 VND''\<rparr>,
        SectionClose]"
proof -
  have res: "results three_keywords =
      Some [(ascii ''abc'', \<lparr>error = Some (ascii ''timeout''), total_count = None, products = None\<rparr>),
            (ascii ''xyz'', \<lparr>error = None, total_count = Some 0, products = Some []\<rparr>),
            ([225, 111], \<lparr>error = None, total_count = Some 1, products = Some [shirt]\<rparr>)]"
    by (simp add: three_keywords_def no_payload_def)
  have wf: "\<forall>(k, r) \<in> set
        [(ascii ''abc'', \<lparr>error = Some (ascii ''timeout''), total_count = None, products = None\<rparr>),
         (ascii ''xyz'', \<lparr>error = None, total_count = Some 0, products = Some []\<rparr>),
         ([225, 111], \<lparr>error = None, total_count = Some 1, products = Some [shirt]\<rparr>)].
      if_truthy (error r) = None \<and> total_count r \<noteq> Some 0 \<longrightarrow> products r \<noteq> None"
    by (simp add: ascii_def)
  from results_rendered_by_priority [OF res wf, of "startup sid0"]
  have returns: "fst (renderProductResponse three_keywords (startup sid0)) = None"
    by blast
  have written:
    "productContainer_html (snd (renderProductResponse three_keywords (startup sid0))) =
       [Heading,
        ErrorMessage (ascii ''abc'') (ascii ''timeout''),
        NoResults (ascii ''xyz''),
        SectionOpen [225, 111] (Some 1),
        Card \<lparr>img_src = ascii ''placeholder-image.png'', card_name = [193] @ ascii ''o thun'',
              card_sku = ascii ''A1'', card_price = ascii ''150.000 VND''\<rparr>,
        SectionClose]"
    by (simp add: renderProductResponse_def Let_def res render_card_def shirt_def or_string_def
        formattedPrice_def formatPrice_exact format_integer_def digits.simps ascii_def)
  from returns written show ?thesis by simp
qed

text \<open>
  Claim C8. The renderer calls \<open>result.products.forEach\<close> without a guard for every entry
  whose \<open>error\<close> is falsy (in particular missing) and whose \<open>total_count\<close> is not 0. So it
  returns exactly when each such entry carries a \<open>products\<close> list, and it throws a
  TypeError otherwise; an entry with no error, a count other than 0 and no \<open>products\<close>
  makes it throw as soon as the loop reaches it, and then the container's content is not
  written.
\<close>

theorem renderProductResponse_returns_iff_products_present:
  "fst (renderProductResponse d s) =
     (if \<forall>(k, r) \<in> set (case results d of None \<Rightarrow> [] | Some rs \<Rightarrow> rs).
           if_truthy (error r) = None \<and> total_count r \<noteq> Some 0 \<longrightarrow> products r \<noteq> None
      then None else Some TypeError)
   \<and> (error r = None \<and> total_count r \<noteq> Some 0 \<and> products r = None \<longrightarrow>
        render_results ((k, r) # rest) html = Inl TypeError)
   \<and> (fst (renderProductResponse d s) \<noteq> None \<longrightarrow>
        productContainer_html (snd (renderProductResponse d s)) = productContainer_html s)"
proof (intro conjI)
  let ?rs = "case results d of None \<Rightarrow> [] | Some rs \<Rightarrow> rs"
  show "fst (renderProductResponse d s) =
     (if \<forall>(k, r) \<in> set ?rs.
           if_truthy (error r) = None \<and> total_count r \<noteq> Some 0 \<longrightarrow> products r \<noteq> None
      then None else Some TypeError)"
  proof (cases "render_results ?rs [Heading]")
    case (Inl e)
    then have "e = TypeError" by (rule render_results_error)
    moreover have "\<not> (\<forall>(k, r) \<in> set ?rs.
           if_truthy (error r) = None \<and> total_count r \<noteq> Some 0 \<longrightarrow> products r \<noteq> None)"
      using Inl render_results_returns_iff [of ?rs "[Heading]"] by simp
    ultimately show ?thesis
      using Inl by (simp add: renderProductResponse_def Let_def)
  next
    case (Inr out)
    then have "\<forall>(k, r) \<in> set ?rs.
           if_truthy (error r) = None \<and> total_count r \<noteq> Some 0 \<longrightarrow> products r \<noteq> None"
      using render_results_returns_iff [of ?rs "[Heading]"] by blast
    then show ?thesis
      using Inr by (simp add: renderProductResponse_def Let_def)
  qed
  show "error r = None \<and> total_count r \<noteq> Some 0 \<and> products r = None \<longrightarrow>
        render_results ((k, r) # rest) html = Inl TypeError"
    by simp
  show "fst (renderProductResponse d s) \<noteq> None \<longrightarrow>
        productContainer_html (snd (renderProductResponse d s)) = productContainer_html s"
    by (simp add: renderProductResponse_def Let_def log_effect_def split: sum.splits)
qed

theorem renderProductResponse_returns_iff_products_present_witness:
  "fst (renderProductResponse counted_without_products (startup sid0)) = Some TypeError
   \<and> productContainer_html (snd (renderProductResponse counted_without_products (startup sid0))) = []
   \<and> productContainer_active (snd (renderProductResponse counted_without_products (startup sid0)))
   \<and> render_results
         [(ascii ''xyz'', \<lparr>error = None, total_count = Some 3, products = None\<rparr>)] [Heading]
       = Inl TypeError
   \<and> fst (renderProductResponse shirt_search (startup sid0)) = None"
proof -
  have missing: "results counted_without_products =
      Some [(ascii ''xyz'', \<lparr>error = None, total_count = Some 3, products = None\<rparr>)]"
    by (simp add: counted_without_products_def no_payload_def)
  have present: "results shirt_search =
      Some [([225, 111], \<lparr>error = None, total_count = Some 1, products = Some [shirt]\<rparr>)]"
    by (simp add: shirt_search_def no_payload_def)
  have active:
    "productContainer_active (snd (renderProductResponse counted_without_products (startup sid0)))"
    by (simp add: renderProductResponse_def Let_def log_effect_def missing)
  have entry:
    "error \<lparr>error = None, total_count = Some 3, products = None\<rparr> = None
     \<and> total_count \<lparr>error = None, total_count = Some 3, products = None\<rparr> \<noteq> Some 0
     \<and> products \<lparr>error = None, total_count = Some 3, products = None\<rparr> = None"
    by simp
  from renderProductResponse_returns_iff_products_present
    [of counted_without_products "startup sid0"
        "\<lparr>error = None, total_count = Some 3, products = None\<rparr>" "ascii ''xyz''" "[]" "[Heading]"]
  have thrown: "fst (renderProductResponse counted_without_products (startup sid0)) = Some TypeError"
    and kept: "productContainer_html
        (snd (renderProductResponse counted_without_products (startup sid0))) = []"
    and loop: "render_results
         [(ascii ''xyz'', \<lparr>error = None, total_count = Some 3, products = None\<rparr>)] [Heading]
       = Inl TypeError"
    using entry by (simp_all add: missing startup_def)
  from renderProductResponse_returns_iff_products_present
    [of shirt_search "startup sid0" "\<lparr>error = None, total_count = Some 3, products = None\<rparr>"
        "ascii ''xyz''" "[]" "[Heading]"]
  have returned: "fst (renderProductResponse shirt_search (startup sid0)) = None"
    by (simp add: present)
  from thrown kept active loop returned show ?thesis by simp
qed

section \<open>Dispatch\<close>

lemma hideAllResponseContainers_panels:
  "\<not> productContainer_active (hideAllResponseContainers s)"
  "\<not> orderContainer_active (hideAllResponseContainers s)"
  "productContainer_html (hideAllResponseContainers s) = []"
  "orderContainer_html (hideAllResponseContainers s) = None"
  "effects (hideAllResponseContainers s) = effects s @ [ContainersHidden]"
  "conversationHistory (hideAllResponseContainers s) = conversationHistory s"
  "chatWindow (hideAllResponseContainers s) = chatWindow s"
  "isTyping (hideAllResponseContainers s) = isTyping s"
  by (simp_all add: hideAllResponseContainers_def log_effect_def)

lemma addBotMessageToChat_fields:
  "productContainer_active (addBotMessageToChat text q s) = productContainer_active s"
  "orderContainer_active (addBotMessageToChat text q s) = orderContainer_active s"
  "productContainer_html (addBotMessageToChat text q s) = productContainer_html s"
  "orderContainer_html (addBotMessageToChat text q s) = orderContainer_html s"
  "isTyping (addBotMessageToChat text q s) = isTyping s"
  "conversationHistory (addBotMessageToChat text q s) = conversationHistory s"
  "chatWindow (addBotMessageToChat text q s) = chatWindow s @ [BotMessage text q]"
  "effects (addBotMessageToChat text q s) = effects s @ [ChatAppended (BotMessage text q)]"
  by (simp_all add: addBotMessageToChat_def log_effect_def)

lemma setTypingState_fields:
  "productContainer_active (setTypingState b s) = productContainer_active s"
  "orderContainer_active (setTypingState b s) = orderContainer_active s"
  "productContainer_html (setTypingState b s) = productContainer_html s"
  "orderContainer_html (setTypingState b s) = orderContainer_html s"
  "isTyping (setTypingState b s) = b"
  "conversationHistory (setTypingState b s) = conversationHistory s"
  "chatWindow (setTypingState b s) = chatWindow s"
  "effects (setTypingState b s) = effects s @ [TypingSet b]"
  by (simp_all add: setTypingState_def log_effect_def)

lemma renderProductResponse_fields:
  "productContainer_active (snd (renderProductResponse d s))"
  "orderContainer_active (snd (renderProductResponse d s)) = orderContainer_active s"
  "orderContainer_html (snd (renderProductResponse d s)) = orderContainer_html s"
  "isTyping (snd (renderProductResponse d s)) = isTyping s"
  "conversationHistory (snd (renderProductResponse d s)) = conversationHistory s"
  "chatWindow (snd (renderProductResponse d s)) = chatWindow s"
  "effects (snd (renderProductResponse d s)) = effects s @ [ProductRendererCalled]"
  by (simp_all add: renderProductResponse_def Let_def log_effect_def split: sum.splits)

lemma renderOrderResponse_fields:
  "orderContainer_active (renderOrderResponse d s)"
  "productContainer_active (renderOrderResponse d s) = productContainer_active s"
  "productContainer_html (renderOrderResponse d s) = productContainer_html s"
  "isTyping (renderOrderResponse d s) = isTyping s"
  "conversationHistory (renderOrderResponse d s) = conversationHistory s"
  "chatWindow (renderOrderResponse d s) = chatWindow s"
  "effects (renderOrderResponse d s) = effects s @ [OrderRendererCalled]"
  by (simp_all add: renderOrderResponse_def Let_def log_effect_def)

lemmas field_simps_widget =
  hideAllResponseContainers_panels addBotMessageToChat_fields setTypingState_fields
  renderProductResponse_fields renderOrderResponse_fields

text \<open>
  Claim C4. \<open>processResponse\<close> clears both containers first (\<open>ContainersHidden\<close> is the
  first effect it adds, before the chat message and before any renderer is called), so
  after any dispatch, from any state, at most one container is active: the product
  container alone for a \<open>product\<close> response with data, whatever was shown before (an order
  panel is deactivated and emptied), the order container alone for an \<open>order\<close> response
  with data, and none otherwise. The clearing is safe with no prior render: on a state
  whose containers are inactive and empty it changes nothing but the list of effects.
\<close>

theorem processResponse_one_panel:
  "\<not> (productContainer_active (snd (processResponse r s))
        \<and> orderContainer_active (snd (processResponse r s)))
   \<and> (rtype r = ascii ''product'' \<and> data r \<noteq> None \<longrightarrow>
        productContainer_active (snd (processResponse r s))
        \<and> \<not> orderContainer_active (snd (processResponse r s))
        \<and> orderContainer_html (snd (processResponse r s)) = None)
   \<and> (rtype r = ascii ''order'' \<and> data r \<noteq> None \<longrightarrow>
        orderContainer_active (snd (processResponse r s))
        \<and> \<not> productContainer_active (snd (processResponse r s))
        \<and> productContainer_html (snd (processResponse r s)) = [])
   \<and> (rtype r \<noteq> ascii ''product'' \<and> rtype r \<noteq> ascii ''order'' \<or> data r = None \<longrightarrow>
        \<not> productContainer_active (snd (processResponse r s))
        \<and> \<not> orderContainer_active (snd (processResponse r s)))
   \<and> effects (snd (processResponse r s)) =
        effects s @ [ContainersHidden, ChatAppended (BotMessage (message r) False)]
        @ (if rtype r = ascii ''product'' \<and> data r \<noteq> None then [ProductRendererCalled]
           else if rtype r = ascii ''order'' \<and> data r \<noteq> None then [OrderRendererCalled]
           else [])
   \<and> (\<not> productContainer_active s \<and> \<not> orderContainer_active s
        \<and> productContainer_html s = [] \<and> orderContainer_html s = None \<longrightarrow>
        hideAllResponseContainers s = log_effect ContainersHidden s)"
proof -
  have differ: "ascii ''product'' \<noteq> ascii ''order''"
    by (simp add: ascii_eq_iff)
  have last: "\<not> productContainer_active s \<and> \<not> orderContainer_active s
        \<and> productContainer_html s = [] \<and> orderContainer_html s = None \<longrightarrow>
        hideAllResponseContainers s = log_effect ContainersHidden s"
    by (simp add: hideAllResponseContainers_def log_effect_def)
  show ?thesis
    using differ last
    by (auto simp: processResponse_def Let_def field_simps_widget)
qed

theorem processResponse_one_panel_witness:
  "orderContainer_active (snd (processResponse order_reply (startup sid0)))
   \<and> \<not> productContainer_active (snd (processResponse order_reply (startup sid0)))
   \<and> productContainer_active
       (snd (processResponse product_reply (snd (processResponse order_reply (startup sid0)))))
   \<and> \<not> orderContainer_active
       (snd (processResponse product_reply (snd (processResponse order_reply (startup sid0)))))
   \<and> orderContainer_html
       (snd (processResponse product_reply (snd (processResponse order_reply (startup sid0)))))
       = None
   \<and> \<not> orderContainer_active
       (snd (processResponse plain_reply (snd (processResponse order_reply (startup sid0)))))
   \<and> \<not> productContainer_active
       (snd (processResponse plain_reply (snd (processResponse order_reply (startup sid0)))))
   \<and> hideAllResponseContainers (startup sid0) = log_effect ContainersHidden (startup sid0)"
proof -
  have order: "rtype order_reply = ascii ''order'' \<and> data order_reply \<noteq> None"
    by (simp add: order_reply_def)
  have product: "rtype product_reply = ascii ''product'' \<and> data product_reply \<noteq> None"
    by (simp add: product_reply_def)
  have plain: "rtype plain_reply \<noteq> ascii ''product'' \<and> rtype plain_reply \<noteq> ascii ''order''
      \<or> data plain_reply = None"
    by (simp add: plain_reply_def)
  have fresh: "\<not> productContainer_active (startup sid0) \<and> \<not> orderContainer_active (startup sid0)
      \<and> productContainer_html (startup sid0) = [] \<and> orderContainer_html (startup sid0) = None"
    by (simp add: startup_def)
  show ?thesis
    using order product plain fresh
      processResponse_one_panel [of order_reply "startup sid0"]
      processResponse_one_panel
        [of product_reply "snd (processResponse order_reply (startup sid0))"]
      processResponse_one_panel
        [of plain_reply "snd (processResponse order_reply (startup sid0))"]
    by simp
qed

section \<open>The three transitions of a submission\<close>

lemma handleUserMessage_accepted:
  assumes "trim (chatInput s) \<noteq> []" and "\<not> isTyping s"
  shows
    "fst (handleUserMessage s) =
       Some \<lparr>req_message = trim (chatInput s), session_id = sessionId s, user_id = userId s\<rparr>"
    "effects (snd (handleUserMessage s)) =
       effects s @
         [InputCleared,
          ChatAppended (UserMessage (trim (chatInput s))),
          HistoryPushed (UserEntry (trim (chatInput s))),
          TypingSet True,
          FetchCalled
            \<lparr>req_message = trim (chatInput s), session_id = sessionId s, user_id = userId s\<rparr>]"
    "chatWindow (snd (handleUserMessage s)) = chatWindow s @ [UserMessage (trim (chatInput s))]"
    "conversationHistory (snd (handleUserMessage s)) =
       conversationHistory s @ [UserEntry (trim (chatInput s))]"
    "isTyping (snd (handleUserMessage s))"
  using assms
  by (simp_all add: handleUserMessage_def Let_def sendUserMessage_def setTypingState_def
      addUserMessageToChat_def updateSendButtonState_def log_effect_def)

lemma handleUserMessage_catch_fields:
  "productContainer_active (handleUserMessage_catch e s) = productContainer_active s"
  "orderContainer_active (handleUserMessage_catch e s) = orderContainer_active s"
  "productContainer_html (handleUserMessage_catch e s) = productContainer_html s"
  "orderContainer_html (handleUserMessage_catch e s) = orderContainer_html s"
  "\<not> isTyping (handleUserMessage_catch e s)"
  "conversationHistory (handleUserMessage_catch e s) = conversationHistory s"
  "chatWindow (handleUserMessage_catch e s) = chatWindow s @ [BotMessage failure_notice False]"
  "effects (handleUserMessage_catch e s) =
     effects s @ [TypingSet False, ChatAppended (BotMessage failure_notice False), ConsoleLogged]"
  by (simp_all add: handleUserMessage_catch_def Let_def log_effect_def field_simps_widget)

lemma sendUserMessage_await_fails_iff:
  "(\<exists>e. sendUserMessage_await fr = Inl e) \<longleftrightarrow>
     fr = Rejected
     \<or> (\<exists>st body. fr = Responded st body \<and> (\<not> response_ok st \<or> body = None))
     \<or> (\<exists>st. fr = RespondedNull st \<and> \<not> response_ok st)"
  by (cases fr) (auto split: option.splits)

lemma handleUserMessage_await_null:
  "sendUserMessage_await fr = Inr JsonNull \<Longrightarrow>
     handleUserMessage_await fr s =
       (None, handleUserMessage_catch TypeError
                (hideAllResponseContainers (setTypingState False s)))"
  by (simp add: handleUserMessage_await_def handleUserMessage_try_def processResponse_null_def)

lemma handleUserMessage_await_failure:
  "sendUserMessage_await fr = Inl e \<Longrightarrow>
     handleUserMessage_await fr s = (None, handleUserMessage_catch e s)"
  by (simp add: handleUserMessage_await_def handleUserMessage_try_def)

lemma processResponse_effects:
  "effects (snd (processResponse r s)) =
     effects s @ [ContainersHidden, ChatAppended (BotMessage (message r) False)]
     @ (if rtype r = ascii ''product'' \<and> data r \<noteq> None then [ProductRendererCalled]
        else if rtype r = ascii ''order'' \<and> data r \<noteq> None then [OrderRendererCalled]
        else [])"
  by (simp add: processResponse_def Let_def field_simps_widget)

lemma processResponse_history:
  "conversationHistory (snd (processResponse r s)) = conversationHistory s"
  by (simp add: processResponse_def Let_def field_simps_widget)

lemma handleUserMessage_await_success:
  assumes "sendUserMessage_await fr = Inr (JsonObject r)"
    and "fst (processResponse r (setTypingState False s)) = None"
  shows
    "effects (snd (handleUserMessage_await fr s)) =
       effects s @ [TypingSet False, ContainersHidden, ChatAppended (BotMessage (message r) False)]
       @ (if rtype r = ascii ''product'' \<and> data r \<noteq> None then [ProductRendererCalled]
          else if rtype r = ascii ''order'' \<and> data r \<noteq> None then [OrderRendererCalled]
          else [])
       @ [HistoryPushed (BotEntry (message r) (rtype r) (data r))]"
    "conversationHistory (snd (handleUserMessage_await fr s)) =
       conversationHistory s @ [BotEntry (message r) (rtype r) (data r)]"
proof -
  obtain s2 where pr: "processResponse r (setTypingState False s) = (None, s2)"
    using assms(2) by (cases "processResponse r (setTypingState False s)") simp
  have eff: "effects s2 =
       effects s @ [TypingSet False, ContainersHidden, ChatAppended (BotMessage (message r) False)]
       @ (if rtype r = ascii ''product'' \<and> data r \<noteq> None then [ProductRendererCalled]
          else if rtype r = ascii ''order'' \<and> data r \<noteq> None then [OrderRendererCalled]
          else [])"
    using processResponse_effects [of r "setTypingState False s"] pr
    by (simp add: field_simps_widget)
  have hist: "conversationHistory s2 = conversationHistory s"
    using processResponse_history [of r "setTypingState False s"] pr
    by (simp add: field_simps_widget)
  show "effects (snd (handleUserMessage_await fr s)) =
       effects s @ [TypingSet False, ContainersHidden, ChatAppended (BotMessage (message r) False)]
       @ (if rtype r = ascii ''product'' \<and> data r \<noteq> None then [ProductRendererCalled]
          else if rtype r = ascii ''order'' \<and> data r \<noteq> None then [OrderRendererCalled]
          else [])
       @ [HistoryPushed (BotEntry (message r) (rtype r) (data r))]"
    using assms(1) pr eff
    by (simp add: handleUserMessage_await_def handleUserMessage_try_def Let_def log_effect_def)
  show "conversationHistory (snd (handleUserMessage_await fr s)) =
       conversationHistory s @ [BotEntry (message r) (rtype r) (data r)]"
    using assms(1) pr hist
    by (simp add: handleUserMessage_await_def handleUserMessage_try_def Let_def log_effect_def)
qed

lemma handleUserMessage_await_renderer_throws:
  assumes "sendUserMessage_await fr = Inr (JsonObject r)"
    and "fst (processResponse r (setTypingState False s)) = Some e"
  shows "handleUserMessage_await fr s =
     (None, handleUserMessage_catch e (snd (processResponse r (setTypingState False s))))"
  using assms
  by (cases "processResponse r (setTypingState False s)")
     (simp add: handleUserMessage_await_def handleUserMessage_try_def Let_def)

lemma plain_reply_processed: "fst (processResponse plain_reply s) = None"
  by (simp add: processResponse_def Let_def plain_reply_def ascii_eq_iff)

lemma typed_hello_accepted:
  "trim (chatInput (typed ''hello'')) = ascii ''hello''" "\<not> isTyping (typed ''hello'')"
  by (simp_all add: typed_def startup_def trim_def ascii_def is_whitespace_def)

text \<open>
  Claim C2, as stated, fails: when the reply arrives, \<open>handleUserMessage\<close> sets
  \<open>isTyping\<close> to false first, then calls \<open>processResponse\<close> (which appends the assistant's
  message to the chat window), and pushes the entry onto \<open>conversationHistory\<close> last. In
  the effects of that transition the flag flip comes before the append of the assistant
  turn, to the chat window as well as to the history, and neither append comes before the
  flag flip.
\<close>

theorem turn_append_before_flag_flip_counterexample:
  "happens_before (TypingSet False) (ChatAppended (BotMessage (message plain_reply) False))
     (new_effects awaiting_reply
        (snd (handleUserMessage_await (Responded 200 (Some plain_reply)) awaiting_reply)))
   \<and> \<not> happens_before (ChatAppended (BotMessage (message plain_reply) False)) (TypingSet False)
     (new_effects awaiting_reply
        (snd (handleUserMessage_await (Responded 200 (Some plain_reply)) awaiting_reply)))
   \<and> \<not> happens_before
        (HistoryPushed (BotEntry (message plain_reply) (rtype plain_reply) (data plain_reply)))
        (TypingSet False)
     (new_effects awaiting_reply
        (snd (handleUserMessage_await (Responded 200 (Some plain_reply)) awaiting_reply)))"
proof -
  have sent: "sendUserMessage_await (Responded 200 (Some plain_reply)) = Inr (JsonObject plain_reply)"
    by (simp add: response_ok_def)
  have "new_effects awaiting_reply
        (snd (handleUserMessage_await (Responded 200 (Some plain_reply)) awaiting_reply)) =
      [TypingSet False, ContainersHidden, ChatAppended (BotMessage (message plain_reply) False),
       HistoryPushed (BotEntry (message plain_reply) (rtype plain_reply) (data plain_reply))]"
    using handleUserMessage_await_success(1) [OF sent plain_reply_processed, of awaiting_reply]
    by (simp add: new_effects_def plain_reply_def ascii_eq_iff)
  then show ?thesis by simp
qed

text \<open>
  Claim C2, amended. The effects of each transition, in the order of the source. An
  accepted submission clears the input, appends the user turn to the chat window and to
  \<open>conversationHistory\<close>, then sets \<open>isTyping\<close> to true, then calls \<open>fetch\<close>. When the reply
  arrives, \<open>isTyping\<close> is set to false first; then the response is dispatched (containers
  cleared, the assistant's message appended to the chat window, the renderer of the
  response's type called); and when the dispatch returns, the assistant entry is pushed
  onto \<open>conversationHistory\<close> last. When the transport fails, \<open>isTyping\<close> is set to false
  before the failure notice is appended to the chat window.
\<close>

theorem transition_effects_in_order:
  "(trim (chatInput s) \<noteq> [] \<and> \<not> isTyping s \<longrightarrow>
      new_effects s (snd (handleUserMessage s)) =
        [InputCleared,
         ChatAppended (UserMessage (trim (chatInput s))),
         HistoryPushed (UserEntry (trim (chatInput s))),
         TypingSet True,
         FetchCalled
           \<lparr>req_message = trim (chatInput s), session_id = sessionId s, user_id = userId s\<rparr>])
   \<and> (sendUserMessage_await fr = Inr (JsonObject r)
        \<and> fst (processResponse r (setTypingState False s)) = None \<longrightarrow>
      new_effects s (snd (handleUserMessage_await fr s)) =
        [TypingSet False, ContainersHidden, ChatAppended (BotMessage (message r) False)]
        @ (if rtype r = ascii ''product'' \<and> data r \<noteq> None then [ProductRendererCalled]
           else if rtype r = ascii ''order'' \<and> data r \<noteq> None then [OrderRendererCalled]
           else [])
        @ [HistoryPushed (BotEntry (message r) (rtype r) (data r))])
   \<and> (sendUserMessage_await fr = Inl e \<longrightarrow>
      new_effects s (snd (handleUserMessage_await fr s)) =
        [TypingSet False, ChatAppended (BotMessage failure_notice False), ConsoleLogged])"
  by (simp add: new_effects_def handleUserMessage_accepted handleUserMessage_await_success
      handleUserMessage_await_failure handleUserMessage_catch_fields)

theorem transition_effects_in_order_witness:
  "new_effects (typed ''hello'') (snd (handleUserMessage (typed ''hello''))) =
     [InputCleared,
      ChatAppended (UserMessage (ascii ''hello'')),
      HistoryPushed (UserEntry (ascii ''hello'')),
      TypingSet True,
      FetchCalled \<lparr>req_message = ascii ''hello'', session_id = sid0, user_id = None\<rparr>]
   \<and> new_effects awaiting_reply
       (snd (handleUserMessage_await (Responded 200 (Some plain_reply)) awaiting_reply)) =
     [TypingSet False, ContainersHidden, ChatAppended (BotMessage (ascii ''Xin chao'') False),
      HistoryPushed (BotEntry (ascii ''Xin chao'') (ascii ''none'') None)]
   \<and> new_effects awaiting_reply (snd (handleUserMessage_await Rejected awaiting_reply)) =
     [TypingSet False, ChatAppended (BotMessage failure_notice False), ConsoleLogged]"
proof (intro conjI)
  have accepted: "trim (chatInput (typed ''hello'')) \<noteq> [] \<and> \<not> isTyping (typed ''hello'')"
    by (simp add: typed_hello_accepted ascii_eq_Nil)
  have fields: "sessionId (typed ''hello'') = sid0" "userId (typed ''hello'') = None"
    by (simp_all add: typed_def startup_def)
  from transition_effects_in_order [of "typed ''hello''" Rejected plain_reply NetworkError]
  have "new_effects (typed ''hello'') (snd (handleUserMessage (typed ''hello''))) =
        [InputCleared,
         ChatAppended (UserMessage (trim (chatInput (typed ''hello'')))),
         HistoryPushed (UserEntry (trim (chatInput (typed ''hello'')))),
         TypingSet True,
         FetchCalled
           \<lparr>req_message = trim (chatInput (typed ''hello'')),
              session_id = sessionId (typed ''hello''), user_id = userId (typed ''hello'')\<rparr>]"
    using accepted by blast
  then show "new_effects (typed ''hello'') (snd (handleUserMessage (typed ''hello''))) =
     [InputCleared,
      ChatAppended (UserMessage (ascii ''hello'')),
      HistoryPushed (UserEntry (ascii ''hello'')),
      TypingSet True,
      FetchCalled \<lparr>req_message = ascii ''hello'', session_id = sid0, user_id = None\<rparr>]"
    by (simp add: typed_hello_accepted fields)
next
  have sent: "sendUserMessage_await (Responded 200 (Some plain_reply)) = Inr (JsonObject plain_reply)
      \<and> fst (processResponse plain_reply (setTypingState False awaiting_reply)) = None"
    by (simp add: response_ok_def plain_reply_processed)
  from transition_effects_in_order
    [of awaiting_reply "Responded 200 (Some plain_reply)" plain_reply NetworkError]
  have "new_effects awaiting_reply
       (snd (handleUserMessage_await (Responded 200 (Some plain_reply)) awaiting_reply)) =
        [TypingSet False, ContainersHidden, ChatAppended (BotMessage (message plain_reply) False)]
        @ (if rtype plain_reply = ascii ''product'' \<and> data plain_reply \<noteq> None
           then [ProductRendererCalled]
           else if rtype plain_reply = ascii ''order'' \<and> data plain_reply \<noteq> None
           then [OrderRendererCalled]
           else [])
        @ [HistoryPushed
             (BotEntry (message plain_reply) (rtype plain_reply) (data plain_reply))]"
    using sent by blast
  then show "new_effects awaiting_reply
       (snd (handleUserMessage_await (Responded 200 (Some plain_reply)) awaiting_reply)) =
     [TypingSet False, ContainersHidden, ChatAppended (BotMessage (ascii ''Xin chao'') False),
      HistoryPushed (BotEntry (ascii ''Xin chao'') (ascii ''none'') None)]"
    by (simp add: plain_reply_def)
next
  have failed: "sendUserMessage_await Rejected = Inl NetworkError"
    by simp
  from transition_effects_in_order [of awaiting_reply Rejected plain_reply NetworkError]
  show "new_effects awaiting_reply (snd (handleUserMessage_await Rejected awaiting_reply)) =
     [TypingSet False, ChatAppended (BotMessage failure_notice False), ConsoleLogged]"
    using failed by blast
qed


section \<open>Transport failure\<close>

lemma after_product_search_state:
  "isTyping after_product_search"
  "productContainer_active after_product_search"
  "productContainer_html after_product_search \<noteq> []"
  by (simp_all add: after_product_search_def startup_def handleUserMessage_def
      handleUserMessage_await_def handleUserMessage_try_def handleUserMessage_catch_def
      processResponse_def
      renderProductResponse_def sendUserMessage_def setTypingState_def addUserMessageToChat_def
      addBotMessageToChat_def hideAllResponseContainers_def updateSendButtonState_def
      log_effect_def response_ok_def product_reply_def shirt_search_def no_payload_def
      render_products_acc Let_def trim_def ascii_def is_whitespace_def)

lemma awaiting_reply_state:
  "chatWindow awaiting_reply = [UserMessage (ascii ''hello'')]"
  "conversationHistory awaiting_reply = [UserEntry (ascii ''hello'')]"
  "isTyping awaiting_reply"
  "\<not> productContainer_active awaiting_reply"
  "\<not> orderContainer_active awaiting_reply"
  by (simp_all add: awaiting_reply_def typed_def startup_def handleUserMessage_def Let_def
      sendUserMessage_def setTypingState_def addUserMessageToChat_def
      updateSendButtonState_def log_effect_def trim_def ascii_def is_whitespace_def)

text \<open>
  Claim C3, as stated, fails. A product search is answered and its panel is shown; the
  next message is submitted and accepted; its transport call is rejected. The \<open>catch\<close>
  block does not touch the containers, so the product panel of the earlier response is
  still shown after the failure. And the failure notice goes to the chat window only:
  \<open>conversationHistory\<close>, the sequence of turns the script keeps, gains no assistant turn.
\<close>

theorem no_panel_after_failure_counterexample:
  "isTyping after_product_search
   \<and> sendUserMessage_await Rejected = Inl NetworkError
   \<and> productContainer_active (snd (handleUserMessage_await Rejected after_product_search))
   \<and> productContainer_html (snd (handleUserMessage_await Rejected after_product_search)) \<noteq> []
   \<and> conversationHistory (snd (handleUserMessage_await Rejected after_product_search)) =
       conversationHistory after_product_search"
  by (simp add: after_product_search_state handleUserMessage_await_failure
      handleUserMessage_catch_fields)

text \<open>
  Claim C3, amended. For every transport failure (the \<open>fetch\<close> promise rejected, a status
  outside 200 to 299, or a body that is not JSON), from any state: no error leaves
  \<open>handleUserMessage\<close>; exactly one message is appended to the chat window, the assistant's
  fixed failure notice, and nothing is appended to \<open>conversationHistory\<close>; \<open>isTyping\<close> is
  false afterwards; the effects are the flag flip, the notice and the console entry, so no
  renderer is called and no request is sent again; and the two containers are left
  exactly as they were, so the failure shows no panel of its own and a panel shown by an
  earlier response stays. A reply with a success status whose body is the JSON text
  \<open>null\<close> is returned by \<open>sendUserMessage\<close> and fails in \<open>processResponse\<close>, which has
  cleared both containers before it throws: the same \<open>catch\<close> block then appends the same
  single notice, \<open>conversationHistory\<close> is unchanged, \<open>isTyping\<close> is false, and both
  containers are inactive and empty.
\<close>

theorem transport_failure_recovered:
  "(fr = Rejected
      \<or> (\<exists>st body. fr = Responded st body \<and> (\<not> response_ok st \<or> body = None))
      \<or> (\<exists>st. fr = RespondedNull st \<and> \<not> response_ok st) \<longrightarrow>
     fst (handleUserMessage_await fr s) = None
     \<and> chatWindow (snd (handleUserMessage_await fr s)) =
         chatWindow s @ [BotMessage failure_notice False]
     \<and> conversationHistory (snd (handleUserMessage_await fr s)) = conversationHistory s
     \<and> \<not> isTyping (snd (handleUserMessage_await fr s))
     \<and> new_effects s (snd (handleUserMessage_await fr s)) =
         [TypingSet False, ChatAppended (BotMessage failure_notice False), ConsoleLogged]
     \<and> productContainer_active (snd (handleUserMessage_await fr s)) = productContainer_active s
     \<and> productContainer_html (snd (handleUserMessage_await fr s)) = productContainer_html s
     \<and> orderContainer_active (snd (handleUserMessage_await fr s)) = orderContainer_active s
     \<and> orderContainer_html (snd (handleUserMessage_await fr s)) = orderContainer_html s)
   \<and> ((\<exists>st. fr = RespondedNull st \<and> response_ok st) \<longrightarrow>
     fst (handleUserMessage_await fr s) = None
     \<and> chatWindow (snd (handleUserMessage_await fr s)) =
         chatWindow s @ [BotMessage failure_notice False]
     \<and> conversationHistory (snd (handleUserMessage_await fr s)) = conversationHistory s
     \<and> \<not> isTyping (snd (handleUserMessage_await fr s))
     \<and> new_effects s (snd (handleUserMessage_await fr s)) =
         [TypingSet False, ContainersHidden, TypingSet False,
          ChatAppended (BotMessage failure_notice False), ConsoleLogged]
     \<and> \<not> productContainer_active (snd (handleUserMessage_await fr s))
     \<and> productContainer_html (snd (handleUserMessage_await fr s)) = []
     \<and> \<not> orderContainer_active (snd (handleUserMessage_await fr s))
     \<and> orderContainer_html (snd (handleUserMessage_await fr s)) = None)"
  (is "(?failed \<longrightarrow> ?kept) \<and> (?null \<longrightarrow> ?cleared)")
proof (rule conjI; rule impI)
  assume ?failed
  then obtain e where "sendUserMessage_await fr = Inl e"
    using sendUserMessage_await_fails_iff [of fr] by blast
  then have "handleUserMessage_await fr s = (None, handleUserMessage_catch e s)"
    by (rule handleUserMessage_await_failure)
  then show ?kept
    by (simp add: handleUserMessage_catch_fields new_effects_def)
next
  assume ?null
  then have "sendUserMessage_await fr = Inr JsonNull"
    by auto
  then have "handleUserMessage_await fr s =
       (None, handleUserMessage_catch TypeError
                (hideAllResponseContainers (setTypingState False s)))"
    by (rule handleUserMessage_await_null)
  then show ?cleared
    by (simp add: handleUserMessage_catch_fields field_simps_widget new_effects_def)
qed

theorem transport_failure_recovered_witness:
  "chatWindow (snd (handleUserMessage_await Rejected awaiting_reply)) =
     [UserMessage (ascii ''hello''), BotMessage failure_notice False]
   \<and> conversationHistory (snd (handleUserMessage_await Rejected awaiting_reply)) =
     [UserEntry (ascii ''hello'')]
   \<and> \<not> isTyping (snd (handleUserMessage_await Rejected awaiting_reply))
   \<and> fst (handleUserMessage_await (Responded 500 (Some plain_reply)) awaiting_reply) = None
   \<and> chatWindow (snd (handleUserMessage_await (Responded 500 (Some plain_reply)) awaiting_reply)) =
     [UserMessage (ascii ''hello''), BotMessage failure_notice False]
   \<and> chatWindow (snd (handleUserMessage_await (Responded 200 None) awaiting_reply)) =
     [UserMessage (ascii ''hello''), BotMessage failure_notice False]
   \<and> \<not> productContainer_active (snd (handleUserMessage_await (Responded 200 None) awaiting_reply))
   \<and> chatWindow (snd (handleUserMessage_await (RespondedNull 404) awaiting_reply)) =
     [UserMessage (ascii ''hello''), BotMessage failure_notice False]
   \<and> productContainer_active after_product_search
   \<and> \<not> productContainer_active
         (snd (handleUserMessage_await (RespondedNull 200) after_product_search))
   \<and> productContainer_html
         (snd (handleUserMessage_await (RespondedNull 200) after_product_search)) = []
   \<and> chatWindow (snd (handleUserMessage_await (RespondedNull 200) after_product_search)) =
       chatWindow after_product_search @ [BotMessage failure_notice False]
   \<and> conversationHistory
         (snd (handleUserMessage_await (RespondedNull 200) after_product_search)) =
       conversationHistory after_product_search"
proof -
  have status: "\<not> response_ok 500" "\<not> response_ok 404" "response_ok 200"
    by (simp_all add: response_ok_def)
  have rejected: "chatWindow (snd (handleUserMessage_await Rejected awaiting_reply)) =
         chatWindow awaiting_reply @ [BotMessage failure_notice False]
     \<and> conversationHistory (snd (handleUserMessage_await Rejected awaiting_reply)) =
         conversationHistory awaiting_reply
     \<and> \<not> isTyping (snd (handleUserMessage_await Rejected awaiting_reply))"
    using transport_failure_recovered [of Rejected awaiting_reply, THEN conjunct1]
    by simp
  have status_500:
    "fst (handleUserMessage_await (Responded 500 (Some plain_reply)) awaiting_reply) = None
     \<and> chatWindow (snd (handleUserMessage_await (Responded 500 (Some plain_reply)) awaiting_reply)) =
         chatWindow awaiting_reply @ [BotMessage failure_notice False]"
    using transport_failure_recovered
      [of "Responded 500 (Some plain_reply)" awaiting_reply, THEN conjunct1] status(1)
    by simp
  have not_json:
    "chatWindow (snd (handleUserMessage_await (Responded 200 None) awaiting_reply)) =
         chatWindow awaiting_reply @ [BotMessage failure_notice False]
     \<and> productContainer_active (snd (handleUserMessage_await (Responded 200 None) awaiting_reply)) =
         productContainer_active awaiting_reply"
    using transport_failure_recovered [of "Responded 200 None" awaiting_reply, THEN conjunct1]
    by simp
  have null_404:
    "chatWindow (snd (handleUserMessage_await (RespondedNull 404) awaiting_reply)) =
         chatWindow awaiting_reply @ [BotMessage failure_notice False]"
    using transport_failure_recovered [of "RespondedNull 404" awaiting_reply, THEN conjunct1]
      status(2)
    by simp
  have null_200:
    "\<not> productContainer_active
         (snd (handleUserMessage_await (RespondedNull 200) after_product_search))
     \<and> productContainer_html
         (snd (handleUserMessage_await (RespondedNull 200) after_product_search)) = []
     \<and> chatWindow (snd (handleUserMessage_await (RespondedNull 200) after_product_search)) =
         chatWindow after_product_search @ [BotMessage failure_notice False]
     \<and> conversationHistory
         (snd (handleUserMessage_await (RespondedNull 200) after_product_search)) =
         conversationHistory after_product_search"
    using transport_failure_recovered
      [of "RespondedNull 200" after_product_search, THEN conjunct2] status(3)
    by simp
  from rejected status_500 not_json null_404 null_200
    awaiting_reply_state after_product_search_state(2)
  show ?thesis by simp
qed

section \<open>What reaches the conversation history\<close>

lemma handleUserMessage_history:
  "conversationHistory (snd (handleUserMessage s)) = conversationHistory s
   \<or> (\<exists>req. fst (handleUserMessage s) = Some req
        \<and> conversationHistory (snd (handleUserMessage s)) =
            conversationHistory s @ [UserEntry (req_message req)])"
proof (cases "trim (chatInput s) = [] \<or> isTyping s")
  case True
  then show ?thesis by (auto simp: handleUserMessage_def Let_def)
next
  case False
  then show ?thesis by (simp add: handleUserMessage_accepted)
qed

lemma handleUserMessage_await_history:
  "conversationHistory (snd (handleUserMessage_await fr s)) = conversationHistory s
   \<or> (\<exists>r. sendUserMessage_await fr = Inr (JsonObject r)
        \<and> conversationHistory (snd (handleUserMessage_await fr s)) =
            conversationHistory s @ [BotEntry (message r) (rtype r) (data r)])"
proof (cases "sendUserMessage_await fr")
  case (Inl e)
  then show ?thesis
    by (simp add: handleUserMessage_await_failure handleUserMessage_catch_fields)
next
  case (Inr b)
  show ?thesis
  proof (cases b)
    case JsonNull
    with Inr show ?thesis
      by (simp add: handleUserMessage_await_null handleUserMessage_catch_fields
          field_simps_widget)
  next
    case (JsonObject r)
    show ?thesis
    proof (cases "fst (processResponse r (setTypingState False s))")
      case None
      with Inr JsonObject show ?thesis by (simp add: handleUserMessage_await_success)
    next
      case (Some e)
      with Inr JsonObject show ?thesis
        by (simp add: handleUserMessage_await_renderer_throws handleUserMessage_catch_fields
            processResponse_history field_simps_widget)
    qed
  qed
qed

lemma notices_keep_history:
  "conversationHistory (setOfflineStatus s) = conversationHistory s"
  "conversationHistory (handleAddToCart sku' s) = conversationHistory s"
  "conversationHistory (handleOrderAction action orderId s) = conversationHistory s"
  "conversationHistory (checkAPIConnection_await fr s) = conversationHistory s"
  by (cases fr;
      simp add: setOfflineStatus_def setOnlineStatus_def handleAddToCart_def
        handleOrderAction_def addBotMessageToChat_fields log_effect_def)+

text \<open>
  Claim C10. \<open>conversationHistory\<close> grows only by an accepted user submission (one user
  entry) and by a transport call that returned a response (one assistant entry): every
  event of the page leaves it unchanged or appends exactly such an entry.
  \<open>addBotMessageToChat\<close> appends to the chat window only, so the failure notice, the
  offline notice and the confirmations of add-to-cart and of the order actions never
  reach the history, and on a transport failure the history is what it was before the
  failure was handled.
\<close>

theorem conversationHistory_grows_only_by_turns:
  "(conversationHistory (step ev s) = conversationHistory s
      \<or> (\<exists>req s0. (ev = SendRequested \<and> s0 = s
                     \<or> (\<exists>action. ev = QuickActionClicked action \<and> s0 = s\<lparr>chatInput := action\<rparr>))
            \<and> fst (handleUserMessage s0) = Some req
            \<and> conversationHistory (step ev s) =
                conversationHistory s @ [UserEntry (req_message req)])
      \<or> (\<exists>fr r. ev = TransportSettled fr \<and> sendUserMessage_await fr = Inr (JsonObject r)
            \<and> conversationHistory (step ev s) =
                conversationHistory s @ [BotEntry (message r) (rtype r) (data r)]))
   \<and> conversationHistory (addBotMessageToChat text q s) = conversationHistory s
   \<and> chatWindow (addBotMessageToChat text q s) = chatWindow s @ [BotMessage text q]
   \<and> conversationHistory (setOfflineStatus s) = conversationHistory s
   \<and> conversationHistory (handleAddToCart sku' s) = conversationHistory s
   \<and> conversationHistory (handleOrderAction action' orderId s) = conversationHistory s
   \<and> conversationHistory (handleUserMessage_catch e s) = conversationHistory s
   \<and> (sendUserMessage_await fr' = Inl e \<longrightarrow>
        conversationHistory (snd (handleUserMessage_await fr' s)) = conversationHistory s)"
proof (intro conjI)
  show "conversationHistory (step ev s) = conversationHistory s
      \<or> (\<exists>req s0. (ev = SendRequested \<and> s0 = s
                     \<or> (\<exists>action. ev = QuickActionClicked action \<and> s0 = s\<lparr>chatInput := action\<rparr>))
            \<and> fst (handleUserMessage s0) = Some req
            \<and> conversationHistory (step ev s) =
                conversationHistory s @ [UserEntry (req_message req)])
      \<or> (\<exists>fr r. ev = TransportSettled fr \<and> sendUserMessage_await fr = Inr (JsonObject r)
            \<and> conversationHistory (step ev s) =
                conversationHistory s @ [BotEntry (message r) (rtype r) (data r)])"
  proof (cases ev)
    case SendRequested
    then show ?thesis using handleUserMessage_history [of s] by auto
  next
    case (QuickActionClicked action)
    then show ?thesis using handleUserMessage_history [of "s\<lparr>chatInput := action\<rparr>"] by auto
  next
    case (TransportSettled fr)
    then show ?thesis using handleUserMessage_await_history [of fr s] by auto
  qed (simp_all add: notices_keep_history updateSendButtonState_def)
qed (simp_all add: notices_keep_history addBotMessageToChat_fields
      handleUserMessage_catch_fields handleUserMessage_await_failure)

theorem conversationHistory_grows_only_by_turns_witness:
  "conversationHistory awaiting_reply = [UserEntry (ascii ''hello'')]
   \<and> sendUserMessage_await Rejected = Inl NetworkError
   \<and> conversationHistory (snd (handleUserMessage_await Rejected awaiting_reply)) =
       [UserEntry (ascii ''hello'')]
   \<and> chatWindow (snd (handleUserMessage_await Rejected awaiting_reply)) =
       [UserMessage (ascii ''hello''), BotMessage failure_notice False]"
proof -
  note before = awaiting_reply_state
  have failed: "sendUserMessage_await Rejected = Inl NetworkError"
    by simp
  have chat: "chatWindow (snd (handleUserMessage_await Rejected awaiting_reply)) =
       [UserMessage (ascii ''hello''), BotMessage failure_notice False]"
    by (simp add: handleUserMessage_await_failure handleUserMessage_catch_fields before)
  from conversationHistory_grows_only_by_turns
    [of SendRequested awaiting_reply failure_notice False "[]" "[]" "[]" NetworkError Rejected]
  have "conversationHistory (snd (handleUserMessage_await Rejected awaiting_reply)) =
      conversationHistory awaiting_reply"
    using failed by blast
  with before failed chat show ?thesis by simp
qed

end
